theory Spec2Isabelle
  imports Main "HOL-Library.Sublist" "HOL-Library.AList"
begin

section \<open>JavaScript values\<close>

text \<open>
  What \<^verbatim>\<open>JSON.parse\<close> returns, and what the state cells hold, are JavaScript
  values. An object is the list of its own properties in insertion order; a number is
  kept as the decimal text JavaScript prints for it (\<^verbatim>\<open>NaN\<close>, \<^verbatim>\<open>Infinity\<close>
  and \<^verbatim>\<open>-Infinity\<close> included). \<open>Undefined\<close> is the value of a property that
  was written as \<^verbatim>\<open>undefined\<close>; a property that is absent has no entry.

  The declared types of the code (\<^verbatim>\<open>AdvertStyle[]\<close>, \<^verbatim>\<open>AdConcept[]\<close>,
  \<^verbatim>\<open>HooksAndCtas\<close>, ...) are followed for the containers: a cell typed as an
  array of some interface is a list of objects. Which properties an object has, and
  what their values are, is left open: nothing in the code checks it. The one place
  where a handler tests the value that its stage function returned is the idea stage
  (\<^verbatim>\<open>ideas && ideas.length > 0\<close>): there the parsed value, and the cell that
  stores it, is any JavaScript value.
\<close>

datatype jsval =
    Undefined
  | Null
  | Bool bool
  | Num string
  | Str string
  | Arr "jsval list"
  | Obj "(string \<times> jsval) list"

type_synonym jsobj = "(string \<times> jsval) list"

text \<open>
  A thrown value: an \<^verbatim>\<open>Error\<close> object with its message, or something that is
  not an \<^verbatim>\<open>Error\<close>.
\<close>

datatype thrown = ErrorObj string | NotAnError

text \<open>
  A \<^verbatim>\<open>TypeError\<close> that the runtime raises is an \<^verbatim>\<open>Error\<close>; its message is
  worded by the engine. The model gives it the wording of V8, the engine of Chrome and
  of Node.js, for the three ways in which the code can raise one: reading a property
  of \<^verbatim>\<open>undefined\<close> or \<^verbatim>\<open>null\<close>, writing one, and converting to a string an
  object that has no usable \<^verbatim>\<open>toString\<close>. The argument \<open>container\<close> is the text
  \<^verbatim>\<open>undefined\<close> or \<^verbatim>\<open>null\<close>, and \<open>k\<close> is the name of the property.
\<close>

definition quoted :: "string \<Rightarrow> string" where
  "quoted k = [CHR 0x27] @ k @ [CHR 0x27]"

definition cannot_read :: "string \<Rightarrow> string \<Rightarrow> thrown" where
  "cannot_read container k =
     ErrorObj (''Cannot read properties of '' @ container @ '' (reading '' @ quoted k @ '')'')"

definition cannot_set :: "string \<Rightarrow> string \<Rightarrow> thrown" where
  "cannot_set container k =
     ErrorObj (''Cannot set properties of '' @ container @ '' (setting '' @ quoted k @ '')'')"

definition cannot_convert :: thrown where
  "cannot_convert = ErrorObj ''Cannot convert object to primitive value''"

text \<open>
  The result of a piece of code that reads or writes properties by computed names.
  \<open>OutsideModel\<close> marks the inputs on which the code reaches the prototype chain (a
  name of \<open>object_prototype_keys\<close> that is not an own property) or treats an
  array or a primitive value as a property container; nothing is stated about them.
\<close>

datatype 'a outcome = Value 'a | Throws thrown | OutsideModel

definition object_prototype_keys :: "string list" where
  "object_prototype_keys =
     [''constructor'', ''__defineGetter__'', ''__defineSetter__'', ''hasOwnProperty'',
      ''__lookupGetter__'', ''__lookupSetter__'', ''isPrototypeOf'',
      ''propertyIsEnumerable'', ''toString'', ''valueOf'', ''__proto__'',
      ''toLocaleString'']"

text \<open>
  \<^verbatim>\<open>o.k\<close> for a name \<open>k\<close> that is not one of \<open>object_prototype_keys\<close>: the
  own property, or \<^verbatim>\<open>undefined\<close>.
\<close>

definition own :: "jsobj \<Rightarrow> string \<Rightarrow> jsval" where
  "own kvs k = (case map_of kvs k of None \<Rightarrow> Undefined | Some v \<Rightarrow> v)"

text \<open>\<^verbatim>\<open>xs[i]\<close> on an array of objects: \<^verbatim>\<open>undefined\<close> out of range.\<close>

definition element :: "jsobj list \<Rightarrow> nat \<Rightarrow> jsobj option" where
  "element xs i = (if i < length xs then Some (xs ! i) else None)"

text \<open>
  \<^verbatim>\<open>ToString\<close>, as a template literal applies it to an interpolated value. An
  array joins its elements with commas (\<^verbatim>\<open>null\<close> and \<^verbatim>\<open>undefined\<close> as the empty
  string). A plain object prints as \<^verbatim>\<open>[object Object]\<close>, unless it has an own
  property \<^verbatim>\<open>toString\<close>: a JSON value is not callable, the inherited
  \<^verbatim>\<open>valueOf\<close> returns the object, and the conversion throws a \<^verbatim>\<open>TypeError\<close>.
\<close>

fun join_strings :: "(thrown + string) list \<Rightarrow> thrown + string" where
  "join_strings [] = Inr []"
| "join_strings (Inl e # rs) = Inl e"
| "join_strings [Inr s] = Inr s"
| "join_strings (Inr s # r # rs) =
     (case join_strings (r # rs) of Inl e \<Rightarrow> Inl e | Inr t \<Rightarrow> Inr (s @ '','' @ t))"

fun to_string :: "jsval \<Rightarrow> thrown + string" where
  "to_string Undefined = Inr ''undefined''"
| "to_string Null = Inr ''null''"
| "to_string (Bool b) = Inr (if b then ''true'' else ''false'')"
| "to_string (Num r) = Inr r"
| "to_string (Str s) = Inr s"
| "to_string (Arr xs) =
     join_strings (map (\<lambda>x. if x = Undefined \<or> x = Null then Inr [] else to_string x) xs)"
| "to_string (Obj kvs) =
     (if map_of kvs ''toString'' \<noteq> None then Inl cannot_convert else Inr ''[object Object]'')"

text \<open>
  \<^verbatim>\<open>JSON.parse(JSON.stringify(v))\<close>, the deep copy of \<^verbatim>\<open>App.tsx\<close>:
  a property whose value is \<^verbatim>\<open>undefined\<close> is dropped, an \<^verbatim>\<open>undefined\<close> array
  element and a number that is not finite become \<^verbatim>\<open>null\<close>.
\<close>

definition non_finite :: "string \<Rightarrow> bool" where
  "non_finite r \<longleftrightarrow> r = ''NaN'' \<or> r = ''Infinity'' \<or> r = ''-Infinity''"

primrec json_copy :: "jsval \<Rightarrow> jsval" where
  "json_copy Undefined = Undefined"
| "json_copy Null = Null"
| "json_copy (Bool b) = Bool b"
| "json_copy (Num r) = (if non_finite r then Null else Num r)"
| "json_copy (Str s) = Str s"
| "json_copy (Arr xs) =
     Arr (map (\<lambda>x. if x = Undefined then Null else x) (map json_copy xs))"
| "json_copy (Obj kvs) =
     Obj (filter (\<lambda>p. snd p \<noteq> Undefined) (map (map_prod id json_copy) kvs))"

definition copy_obj :: "jsobj \<Rightarrow> jsobj" where
  "copy_obj kvs = filter (\<lambda>p. snd p \<noteq> Undefined) (map (map_prod id json_copy) kvs)"

text \<open>\<^verbatim>\<open>field.split('.')\<close>: the segments between the dots, never an empty list.\<close>

fun split_dots :: "string \<Rightarrow> string list" where
  "split_dots [] = [[]]"
| "split_dots (c # cs) =
     (if c = CHR ''.'' then [] # split_dots cs
      else (case split_dots cs of [] \<Rightarrow> [[c]] | w # ws \<Rightarrow> (c # w) # ws))"

text \<open>\<^verbatim>\<open>x || d\<close> on a string, and on a string that may be \<^verbatim>\<open>undefined\<close>.\<close>

definition or_default :: "string \<Rightarrow> string \<Rightarrow> string" where
  "or_default x d = (if x = [] then d else x)"

definition opt_or_default :: "string option \<Rightarrow> string \<Rightarrow> string" where
  "opt_or_default x d = (case x of None \<Rightarrow> d | Some y \<Rightarrow> or_default y d)"

section \<open>The declared types\<close>

text \<open>The thirteen stages, the string literals of the type \<^verbatim>\<open>Stage\<close>.\<close>

datatype stage =
    Initial
  | ImageUploaded
  | AdvertTypeSelected
  | GeneratingStyles
  | StylesGenerated
  | GeneratingIdeas
  | IdeasGenerated
  | GeneratingFullConcepts
  | ReviewingConcepts
  | GeneratingHooksAndCtasForSelection
  | SelectingHooksAndCtas
  | GeneratingFinalOutputs
  | FinalOutputsGenerated

text \<open>\<^verbatim>\<open>'still' | 'video'\<close>\<close>

datatype advert_type = Still | Video

text \<open>
  A browser \<^verbatim>\<open>File\<close> is opaque to the code; the model names it by a string.
  \<^verbatim>\<open>AdvertStyle\<close> and \<^verbatim>\<open>ConceptIdea\<close> are the declared types of the values
  that the selector components hand to \<^verbatim>\<open>App\<close>.
\<close>

datatype image_file = File string

record advert_style =
  title :: string
  summary :: string

record concept_idea =
  idea_title :: string
  idea_summary :: string

section \<open>The stage functions of the provider service\<close>

text \<open>
  Each stage function builds an instruction text, sends it with an output schema to
  the provider (\<^verbatim>\<open>ai.models.generateContent\<close>), and returns
  \<^verbatim>\<open>JSON.parse(response.text.trim())\<close>. The provider is the environment of the
  model; what it did is an argument of the stage function:
  \<^item> \<open>Rejects e\<close>: the awaited call (or the read of \<^verbatim>\<open>response.text\<close> after it)
    threw \<open>e\<close>;
  \<^item> \<open>NotJson\<close>: the trimmed text is not JSON, \<^verbatim>\<open>JSON.parse\<close> throws;
  \<^item> \<open>Parsed v\<close>: \<^verbatim>\<open>JSON.parse\<close> returns \<open>v\<close>.
\<close>

datatype 'a reply = Rejects thrown | NotJson | Parsed 'a

text \<open>
  The image part that \<^verbatim>\<open>fileToGenerativePart\<close> makes of the uploaded file; every
  stage function but the enhancement passes it on to the provider as it is.
\<close>

datatype generative_part = GenerativePart string

text \<open>\<^verbatim>\<open>interface CtaDetails { url?: string; whatsapp?: string; }\<close>\<close>

record cta_details =
  url :: "string option"
  whatsapp :: "string option"

subsection \<open>Step 1: advert styles\<close>

definition generateAdvertStyles_prompt :: "advert_type \<Rightarrow> string" where
  "generateAdvertStyles_prompt advertType =
     (let format = (if advertType = Still then ''still image'' else ''short 8-10 second video'')
      in ''Analyze the provided product image. Based on its category and appearance, generate 5 distinct, highly trending, and successful ad STYLES for a ''
      @ format
      @ '' campaign. For each style, provide a catchy title and a brief summary explaining the style and why it's currently effective for getting high CTR. Examples for video could be \"Unboxing ASMR\" or \"Dynamic User-Generated Content Style\". Examples for still image could be \"Cinematic Product Shot\" or \"Bold Minimalism\".'')"

definition generateAdvertStyles ::
    "generative_part \<Rightarrow> advert_type \<Rightarrow> jsobj list reply \<Rightarrow> thrown + jsobj list" where
  "generateAdvertStyles imagePart advertType response =
     (let prompt = generateAdvertStyles_prompt advertType in
      case response of
        Rejects e \<Rightarrow> Inl e
      | NotJson \<Rightarrow> Inl (ErrorObj ''The AI returned an invalid response for advert styles.'')
      | Parsed v \<Rightarrow> Inr v)"

subsection \<open>Step 2: concept ideas\<close>

definition coreInstruction :: "string \<Rightarrow> advert_style \<Rightarrow> string" where
  "coreInstruction format st =
     ''Your task is to generate 5 distinct, highly trending, and attention-grabbing ad concept IDEAS for a ''
      @ format
      @ '', all aligned with the chosen ad style: \"''
      @ title st
      @ '': ''
      @ summary st
      @ ''\". These should be high-level summaries, not full plans. Focus on what's current, viral, and proven to have a high CTR for this product category within the specified ad style.''"

definition generateConceptIdeas_prompt ::
    "string \<Rightarrow> string \<Rightarrow> advert_style \<Rightarrow> advert_type \<Rightarrow> string" where
  "generateConceptIdeas_prompt brandGuidelines userConcept st advertType =
     (let format = (if advertType = Still then ''still image'' else ''short 8-10 second video'');
          core = coreInstruction format st
      in if userConcept \<noteq> [] then
        ''You are a world-class AI creative director specializing in enhancing raw ideas into high-performing campaigns. A user has provided an image, their initial ad concept, a chosen format (''
      @ format
      @ ''), and a guiding ad style.\<newline>        Your task is to act as a creative partner. Take the user's core idea and elevate it by blending it with 5 distinct, highly trending, and proven high-CTR (Click-Through Rate) strategies relevant to the product type, chosen format, and ad style. The goal is not to replace their idea, but to show them five professional, enhanced variations of it.\<newline>\<newline>        ''
      @ core
      @ ''\<newline>\<newline>        USER INPUTS:\<newline>        - Chosen Ad Style: \"''
      @ title st
      @ ''\"\<newline>        - User's Raw Ad Concept to Enhance: \"''
      @ userConcept
      @ ''\"\<newline>        - Brand Guidelines to consider: \"''
      @ or_default brandGuidelines ''N/A''
      @ ''\"''
      else
        ''You are a world-class AI creative director. A user has provided an image, brand guidelines, a chosen format (''
      @ format
      @ ''), and has chosen a guiding ad style.\<newline>        ''
      @ core
      @ ''\<newline>\<newline>        USER INPUTS:\<newline>        - Chosen Ad Style: \"''
      @ title st
      @ ''\"\<newline>        - Brand Guidelines: \"''
      @ or_default brandGuidelines ''N/A''
      @ ''\"'')"

text \<open>
  The caller of this stage tests the value it gets (\<^verbatim>\<open>ideas && ideas.length > 0\<close>),
  so the parsed value is any JavaScript value here, not only a list of objects.
\<close>

definition generateConceptIdeas ::
    "generative_part \<Rightarrow> cta_details \<Rightarrow> string \<Rightarrow> string \<Rightarrow> advert_style \<Rightarrow> advert_type \<Rightarrow>
     jsval reply \<Rightarrow> thrown + jsval" where
  "generateConceptIdeas imagePart ctaDetails brandGuidelines userConcept st advertType response =
     (let prompt = generateConceptIdeas_prompt brandGuidelines userConcept st advertType in
      case response of
        Rejects e \<Rightarrow> Inl e
      | NotJson \<Rightarrow> Inl (ErrorObj ''The AI returned an invalid response for concept ideas.'')
      | Parsed v \<Rightarrow> Inr v)"

subsection \<open>Step 3: full concepts\<close>

text \<open>
  The instruction text. Reading \<^verbatim>\<open>selectedIdeas[0].title\<close> or
  \<^verbatim>\<open>selectedIdeas[1].title\<close> throws when fewer than two ideas were passed.
\<close>

definition generateFullConcepts_prompt ::
    "cta_details \<Rightarrow> string \<Rightarrow> concept_idea list \<Rightarrow> advert_type \<Rightarrow> advert_style \<Rightarrow> thrown + string" where
  "generateFullConcepts_prompt ctaDetails brandGuidelines selectedIdeas advertType st =
     (let isVideo = (advertType = Video);
          format = (if isVideo then ''short 8-10 second video'' else ''still image'');
          budget = (if isVideo then ''$300,000 video commercial'' else ''high-end commercial photoshoot'')
      in case selectedIdeas of
        i0 # i1 # _ \<Rightarrow> Inr (
        ''You are a world-class AI producer for a high-end creative agency. Your task is to take two user-selected ad concept ideas and flesh them out into complete, professional, agency-grade plans for a ''
      @ format
      @ '', reflecting a ''
      @ budget
      @ ''. The final output must be extremely detailed, actionable, and optimized for high CTR, all while adhering to the user's chosen ad style.\<newline>\<newline>    INITIAL USER INPUTS:\<newline>    - Target Format: ''
      @ format
      @ ''\<newline>    - Chosen Ad Style: \"''
      @ title st
      @ '': ''
      @ summary st
      @ ''\"\<newline>    - Website for CTA: \"''
      @ opt_or_default (url ctaDetails) ''Not provided''
      @ ''\"\<newline>    - WhatsApp for CTA: \"''
      @ opt_or_default (whatsapp ctaDetails) ''Not provided''
      @ ''\"\<newline>    - Brand Guidelines: \"''
      @ or_default brandGuidelines ''N/A''
      @ ''\"\<newline>\<newline>    USER'S CHOSEN CONCEPTS:\<newline>    1. Title: \"''
      @ idea_title i0
      @ ''\", Summary: \"''
      @ idea_summary i0
      @ ''\"\<newline>    2. Title: \"''
      @ idea_title i1
      @ ''\", Summary: \"''
      @ idea_summary i1
      @ ''\"\<newline>    \<newline>    For EACH of the two chosen concepts, generate a complete plan.\<newline>    1.  **Craft Ad Copy:** Write a compelling hook, ad copy, and a strong CTA. The CTA must be context-aware: if a URL is given, use it. If a WhatsApp number is given, use it. If both, suggest a CTA that incorporates both. If neither, use a generic CTA like \"Learn More\".\<newline>    2.  **Provide High-End Details:** For a still, detail the 'shootSetup'. For a video, detail the 'sceneDescription'. Recommend high-end cameras (e.g., ARRI Alexa, RED Komodo, Hasselblad, Phase One), lenses, and settings appropriate for a major commercial production. Include video-specific details like camera movement and sound design if it's a video.\<newline>    3.  **Justify Trend:** Explain why this high-budget execution will be attention-grabbing and lead to high CTR.\<newline>\<newline>    Output a JSON array containing exactly TWO ad concept objects, one for each selected idea.'')
      | _ \<Rightarrow> Inl (cannot_read ''undefined'' ''title''))"

text \<open>
  The output schema sent with the request (\<^verbatim>\<open>config.responseSchema\<close>): a
  \<^verbatim>\<open>Type.STRING\<close> with its description if it has one, a \<^verbatim>\<open>Type.ARRAY\<close> with its
  item schema, a \<^verbatim>\<open>Type.OBJECT\<close> with its properties (a property can be written
  with the value \<^verbatim>\<open>undefined\<close>) and its list of required names.
\<close>

datatype schema =
    TString "string option"
  | TArray schema
  | TObject "(string \<times> schema option) list" "string list"

definition technicalSpecsProps :: "bool \<Rightarrow> (string \<times> schema option) list" where
  "technicalSpecsProps isVideo =
     [(''camera'', Some (TString (Some ''Recommended professional camera types (e.g., ARRI Alexa for video, Hasselblad X2D for still).''))),
      (''lenses'', Some (TString (Some (if isVideo then ''Recommended lens style (e.g., Cinematic Anamorphic).'' else ''Specific professional lenses (e.g., 85mm f/1.4).'')))),
      (''angles'', Some (TString (Some (if isVideo then ''Key shots and camera angles (e.g., Dynamic close-ups, wide establishing shots).'' else ''Key angles for the photoshoot.'')))),
      (''specs'', Some (TString (Some (if isVideo then ''Video resolution and framerate (e.g., 4K, 24fps).'' else ''Image specifications (e.g., High-resolution, 3:2 aspect ratio).'')))),
      (''mood'', Some (TString (Some ''The overall mood, feeling, or aesthetic (e.g., Energetic and vibrant, dark and moody).'')))]
     @ (if isVideo then
         [(''cameraMovement'', Some (TString (Some ''Specific camera movements (e.g., Fast-paced dolly shots, slow pans).''))),
          (''editingStyle'', Some (TString (Some ''Editing style for the video (e.g., Quick cuts, seamless transitions).''))),
          (''soundDesign'', Some (TString (Some ''Key elements of the sound design and music.'')))]
        else [])"

definition generateFullConcepts_schema :: "advert_type \<Rightarrow> schema" where
  "generateFullConcepts_schema advertType =
     (let isVideo = (advertType = Video) in
      TArray (TObject
        [(''optionName'', Some (TString None)),
         (''conceptSummary'', Some (TString None)),
         (''shootSetup'', Some (TString (Some (if isVideo then ''Detailed scene description.'' else ''Detailed shoot setup description.'')))),
         (''technicalSpecs'', Some (TObject (technicalSpecsProps isVideo) (map fst (technicalSpecsProps isVideo)))),
         (''stylingNotes'', Some (TString None)),
         (''postProduction'', Some (TString None)),
         (''hookLine'', Some (TString None)),
         (''adCopy'', Some (TString None)),
         (''cta'', Some (TString None)),
         (''trendReasoning'', Some (TString None)),
         (''format'', Some (TString (Some (''Set to \"'' @ (if isVideo then ''Short Video'' else ''Still Image'') @ ''\"'')))),
         (''videoDuration'', if isVideo then Some (TString (Some ''The total duration of the video, e.g., \"8 seconds\".'')) else None)]
        [''optionName'', ''conceptSummary'', ''shootSetup'', ''technicalSpecs'', ''stylingNotes'',
         ''postProduction'', ''hookLine'', ''adCopy'', ''cta'', ''trendReasoning'', ''format'']))"

definition generateFullConcepts ::
    "generative_part \<Rightarrow> cta_details \<Rightarrow> string \<Rightarrow> string \<Rightarrow> concept_idea list \<Rightarrow>
     advert_type \<Rightarrow> advert_style \<Rightarrow> jsobj list reply \<Rightarrow> thrown + jsobj list" where
  "generateFullConcepts imagePart ctaDetails brandGuidelines userConcept selectedIdeas advertType st
     response =
     (case generateFullConcepts_prompt ctaDetails brandGuidelines selectedIdeas advertType st of
        Inl e \<Rightarrow> Inl e
      | Inr prompt \<Rightarrow>
          (case response of
             Rejects e \<Rightarrow> Inl e
           | NotJson \<Rightarrow> Inl (ErrorObj ''The AI returned an invalid response for full concepts.'')
           | Parsed v \<Rightarrow> Inr v))"

subsection \<open>Step 4: enhanced styling notes\<close>

text \<open>
  \<^verbatim>\<open>enhanceStylingNotes\<close> returns \<^verbatim>\<open>response.text.trim()\<close>, with no parse: the
  environment is the thrown value, or that trimmed text. The instruction text (the
  concept printed by \<^verbatim>\<open>JSON.stringify\<close>) is not modelled.
\<close>

definition enhanceStylingNotes :: "jsobj \<Rightarrow> thrown + string \<Rightarrow> thrown + string" where
  "enhanceStylingNotes concept response = response"

subsection \<open>Step 5: hooks and CTAs\<close>

text \<open>
  The instruction text interpolates \<^verbatim>\<open>concepts[0].optionName\<close>,
  \<^verbatim>\<open>concepts[0].conceptSummary\<close> and the same of \<^verbatim>\<open>concepts[1]\<close>: a missing
  concept makes the property read throw, and a value that cannot be converted to a
  string makes the conversion throw.
\<close>

definition interpolate :: "jsobj option \<Rightarrow> string \<Rightarrow> thrown + string" where
  "interpolate concept k =
     (case concept of
        None \<Rightarrow> Inl (cannot_read ''undefined'' k)
      | Some kvs \<Rightarrow> to_string (own kvs k))"

definition generateHooksAndCtas_prompt ::
    "jsobj list \<Rightarrow> cta_details \<Rightarrow> string \<Rightarrow> thrown + string" where
  "generateHooksAndCtas_prompt concepts ctaDetails language =
     (case interpolate (element concepts 0) ''optionName'' of Inl e \<Rightarrow> Inl e | Inr n0 \<Rightarrow>
      case interpolate (element concepts 0) ''conceptSummary'' of Inl e \<Rightarrow> Inl e | Inr s0 \<Rightarrow>
      case interpolate (element concepts 1) ''optionName'' of Inl e \<Rightarrow> Inl e | Inr n1 \<Rightarrow>
      case interpolate (element concepts 1) ''conceptSummary'' of Inl e \<Rightarrow> Inl e | Inr s1 \<Rightarrow>
      Inr (
        ''You are a direct-response copywriting expert specializing in high-CTR ad copy. The user has two finalized ad concepts and needs a selection of punchy hooks and high-impact CTAs written in ''
      @ language
      @ ''.\<newline>\<newline>    USER'S AD CONCEPTS:\<newline>    1. ''
      @ n0
      @ '': ''
      @ s0
      @ ''\<newline>    2. ''
      @ n1
      @ '': ''
      @ s1
      @ ''\<newline>\<newline>    USER'S CTA DETAILS:\<newline>    - Website URL: ''
      @ opt_or_default (url ctaDetails) ''Not provided''
      @ ''\<newline>    - WhatsApp Number: ''
      @ opt_or_default (whatsapp ctaDetails) ''Not provided''
      @ ''\<newline>\<newline>    TASK:\<newline>    1. Generate a list of 5 unique, punchy, and attention-grabbing HOOK lines in ''
      @ language
      @ ''. These should be versatile enough to work for either concept.\<newline>    2. Generate a list of 5 unique, high-impact, and persuasive CALL TO ACTION (CTA) one-liners in ''
      @ language
      @ ''. These CTAs MUST intelligently incorporate the provided Website URL and/or WhatsApp number. If both are provided, create CTAs that leverage them together (e.g., \"Shop now at our website or message us on WhatsApp!\"). If only one is provided, use it directly.\<newline>\<newline>    Output the result in a JSON object.''))"

definition generateHooksAndCtas ::
    "generative_part \<Rightarrow> jsobj list \<Rightarrow> cta_details \<Rightarrow> string \<Rightarrow> jsobj reply \<Rightarrow>
     thrown + jsobj" where
  "generateHooksAndCtas imagePart concepts ctaDetails language response =
     (case generateHooksAndCtas_prompt concepts ctaDetails language of
        Inl e \<Rightarrow> Inl e
      | Inr prompt \<Rightarrow>
          (case response of
             Rejects e \<Rightarrow> Inl e
           | NotJson \<Rightarrow> Inl (ErrorObj ''The AI returned an invalid response for hooks and CTAs.'')
           | Parsed v \<Rightarrow> Inr v))"

subsection \<open>Step 6: image prompts and video scripts\<close>

text \<open>
  Of the instruction texts of the two terminal stages, the model keeps what decides
  whether building them throws. \<^verbatim>\<open>JSON.stringify(concepts[i], null, 2)\<close> does not
  throw; the image prompt also interpolates \<^verbatim>\<open>hookLine\<close> and \<^verbatim>\<open>cta\<close> of both
  concepts, in this order. The video script prompt interpolates nothing else.
\<close>

definition generateImagePrompts_interpolations :: "jsobj list \<Rightarrow> thrown + string list" where
  "generateImagePrompts_interpolations concepts =
     (case interpolate (element concepts 0) ''hookLine'' of Inl e \<Rightarrow> Inl e | Inr h0 \<Rightarrow>
      case interpolate (element concepts 1) ''hookLine'' of Inl e \<Rightarrow> Inl e | Inr h1 \<Rightarrow>
      case interpolate (element concepts 0) ''cta'' of Inl e \<Rightarrow> Inl e | Inr c0 \<Rightarrow>
      case interpolate (element concepts 1) ''cta'' of Inl e \<Rightarrow> Inl e | Inr c1 \<Rightarrow>
      Inr [h0, h1, c0, c1])"

definition generateImagePrompts ::
    "generative_part \<Rightarrow> jsobj list \<Rightarrow> string \<Rightarrow> jsobj list reply \<Rightarrow> thrown + jsobj list" where
  "generateImagePrompts imagePart concepts priceTag response =
     (case generateImagePrompts_interpolations concepts of
        Inl e \<Rightarrow> Inl e
      | Inr texts \<Rightarrow>
          (case response of
             Rejects e \<Rightarrow> Inl e
           | NotJson \<Rightarrow> Inl (ErrorObj ''The AI returned an invalid response for image prompts.'')
           | Parsed v \<Rightarrow> Inr v))"

definition generateVideoScripts ::
    "generative_part \<Rightarrow> jsobj list \<Rightarrow> jsobj list reply \<Rightarrow> thrown + jsobj list" where
  "generateVideoScripts imagePart concepts response =
     (case response of
        Rejects e \<Rightarrow> Inl e
      | NotJson \<Rightarrow> Inl (ErrorObj ''The AI returned an invalid response for video scripts.'')
      | Parsed v \<Rightarrow> Inr v)"

section \<open>The workflow state of \<^verbatim>\<open>App.tsx\<close>\<close>

text \<open>
  The component \<^verbatim>\<open>App\<close> keeps its whole state in React state cells. The model
  collects the cells in one record; a handler is a function from the record (the
  values its closure captured) to the record after its setter calls.
\<close>

record app_state =
  stage :: stage
  imageFile :: "image_file option"
  imageUrl :: "string option"
  advertType :: "advert_type option"
  ctaUrl :: string
  ctaWhatsApp :: string
  priceTag :: string
  brandGuidelines :: string
  userConcept :: string
  copyLanguage :: string
  advertStyles :: "jsobj list"
  selectedStyle :: "advert_style option"
  conceptIdeas :: jsval
  adConcepts :: "jsobj list"
  editableConcepts :: "jsobj list"
  reviewIndex :: nat
  hooksAndCtasForSelection :: "jsobj option"
  imageGenPrompts :: "jsobj list option"
  videoScripts :: "jsobj list option"
  error :: "string option"
  isEnhancingStyling :: bool

text \<open>The initial values of the \<^verbatim>\<open>useState\<close> calls.\<close>

definition initial_state :: app_state where
  "initial_state =
     \<lparr> stage = Initial, imageFile = None, imageUrl = None, advertType = None,
       ctaUrl = [], ctaWhatsApp = [], priceTag = [], brandGuidelines = [],
       userConcept = [], copyLanguage = ''English'',
       advertStyles = [], selectedStyle = None, conceptIdeas = Arr [], adConcepts = [],
       editableConcepts = [], reviewIndex = 0, hooksAndCtasForSelection = None,
       imageGenPrompts = None, videoScripts = None, error = None,
       isEnhancingStyling = False \<rparr>"

subsection \<open>Resetting\<close>

definition resetWorkflow :: "bool \<Rightarrow> app_state \<Rightarrow> app_state" where
  "resetWorkflow keepImage s =
     (let s1 = s\<lparr> stage := (if keepImage then ImageUploaded else Initial) \<rparr>;
          s2 = (if \<not> keepImage then s1\<lparr> imageFile := None, imageUrl := None \<rparr> else s1)
      in s2\<lparr> error := None,
             advertType := None,
             advertStyles := [],
             selectedStyle := None,
             conceptIdeas := Arr [],
             adConcepts := [],
             editableConcepts := [],
             reviewIndex := 0,
             hooksAndCtasForSelection := None,
             imageGenPrompts := None,
             videoScripts := None \<rparr>)"

text \<open>
  \<^verbatim>\<open>handleImageUpload(file)\<close>; \<open>objectUrl\<close> is what \<^verbatim>\<open>URL.createObjectURL(file)\<close>
  returned.
\<close>

definition handleImageUpload :: "image_file \<Rightarrow> string \<Rightarrow> app_state \<Rightarrow> app_state" where
  "handleImageUpload f objectUrl s =
     (resetWorkflow True (s\<lparr> imageFile := Some f, imageUrl := Some objectUrl \<rparr>))
       \<lparr> stage := ImageUploaded \<rparr>"

definition handleAdvertTypeSelect :: "advert_type \<Rightarrow> app_state \<Rightarrow> app_state" where
  "handleAdvertTypeSelect t s = s\<lparr> advertType := Some t, stage := AdvertTypeSelected \<rparr>"

subsection \<open>The stage handlers\<close>

text \<open>
  A stage handler is asynchronous: it checks its inputs, writes some cells, awaits
  \<^verbatim>\<open>fileToGenerativePart(imageFile)\<close> and then the stage function, and writes the
  cells of the success or of the \<^verbatim>\<open>catch\<close> branch. The model runs a handler to its
  end on the state it was started on; no other event comes between. What the two
  awaited calls did is given by two arguments: \<open>imagePart\<close> is the image part, or
  what reading the file threw, and \<open>response\<close> is the provider's part. Where a
  handler returns at its guard, neither is used: nothing was awaited.

  \<open>await_then\<close> is the sequence of two steps of a \<^verbatim>\<open>try\<close> block: when the first
  throws, the second is not run.
\<close>

definition await_then :: "thrown + 'a \<Rightarrow> ('a \<Rightarrow> thrown + 'b) \<Rightarrow> thrown + 'b" where
  "await_then first second = (case first of Inl err \<Rightarrow> Inl err | Inr x \<Rightarrow> second x)"

definition error_text :: "thrown \<Rightarrow> string" where
  "error_text err =
     (case err of ErrorObj message \<Rightarrow> ''An error occurred: '' @ message
               | NotAnError \<Rightarrow> ''An unknown error occurred.'')"

definition handleGenerateStyles ::
    "thrown + generative_part \<Rightarrow> jsobj list reply \<Rightarrow> app_state \<Rightarrow> app_state" where
  "handleGenerateStyles imagePart response s =
     (case (imageFile s, advertType s) of
        (Some f, Some t) \<Rightarrow>
          (let s1 = s\<lparr> stage := GeneratingStyles, error := None \<rparr> in
           case await_then imagePart (\<lambda>part. generateAdvertStyles part t response) of
             Inr styles \<Rightarrow> s1\<lparr> advertStyles := styles, stage := StylesGenerated \<rparr>
           | Inl err \<Rightarrow> s1\<lparr> error := Some (error_text err), stage := AdvertTypeSelected \<rparr>)
      | _ \<Rightarrow> s)"

text \<open>
  \<^verbatim>\<open>ideas && ideas.length > 0\<close>, the test of the idea handler on the parsed value.
  \<^verbatim>\<open>null\<close>, a boolean, a number and the empty string fail it: they are falsy, or
  have no \<^verbatim>\<open>length\<close>. An array and a string pass it when they are not empty. An
  object with no property \<^verbatim>\<open>length\<close> fails it; for an object that has one, the
  test compares that value with 0, which is left outside the model (\<open>None\<close>).
\<close>

definition has_items :: "jsval \<Rightarrow> bool option" where
  "has_items v =
     (case v of
        Arr xs \<Rightarrow> Some (xs \<noteq> [])
      | Str text \<Rightarrow> Some (text \<noteq> [])
      | Obj kvs \<Rightarrow> (if map_of kvs ''length'' = None then Some False else None)
      | _ \<Rightarrow> Some False)"

definition handleGenerateIdeas ::
    "thrown + generative_part \<Rightarrow> jsval reply \<Rightarrow> app_state \<Rightarrow> app_state outcome" where
  "handleGenerateIdeas imagePart response s =
     (case (imageFile s, selectedStyle s, advertType s) of
        (Some f, Some st, Some t) \<Rightarrow>
          (let s1 = s\<lparr> stage := GeneratingIdeas, error := None, conceptIdeas := Arr [] \<rparr> in
           case await_then imagePart (\<lambda>part.
                  generateConceptIdeas part \<lparr> url = Some (ctaUrl s), whatsapp = Some (ctaWhatsApp s) \<rparr>
                    (brandGuidelines s) (userConcept s) st t response) of
             Inr ideas \<Rightarrow>
               (case has_items ideas of
                  Some True \<Rightarrow> Value (s1\<lparr> conceptIdeas := ideas, stage := IdeasGenerated \<rparr>)
                | Some False \<Rightarrow>
                    Value (s1\<lparr> error := Some ''The AI couldn't generate any ideas for this combination. Please try adjusting your inputs.'',
                               stage := StylesGenerated \<rparr>)
                | None \<Rightarrow> OutsideModel)
           | Inl err \<Rightarrow> Value (s1\<lparr> error := Some (error_text err), stage := StylesGenerated \<rparr>))
      | _ \<Rightarrow> Value (s\<lparr> error := Some ''Please ensure an image, advert type, and a trending style are selected.'' \<rparr>))"

text \<open>
  \<^verbatim>\<open>handleGenerateFullConcepts\<close> passes \<^verbatim>\<open>selectedStyle!\<close>: when the cell is
  \<^verbatim>\<open>null\<close>, the stage function throws on reading its title.
\<close>

definition handleGenerateFullConcepts ::
    "concept_idea list \<Rightarrow> thrown + generative_part \<Rightarrow> jsobj list reply \<Rightarrow> app_state \<Rightarrow>
     app_state" where
  "handleGenerateFullConcepts selectedIdeas imagePart response s =
     (case (imageFile s, advertType s) of
        (Some f, Some t) \<Rightarrow>
          if length selectedIdeas \<noteq> 2 then
            s\<lparr> error := Some ''Something went wrong. Please start over.'' \<rparr>
          else
            (let s1 = s\<lparr> stage := GeneratingFullConcepts, error := None, adConcepts := [] \<rparr> in
             case await_then imagePart (\<lambda>part.
                    case selectedStyle s of
                      None \<Rightarrow> Inl (cannot_read ''null'' ''title'')
                    | Some st \<Rightarrow>
                        generateFullConcepts part
                          \<lparr> url = Some (ctaUrl s), whatsapp = Some (ctaWhatsApp s) \<rparr>
                          (brandGuidelines s) (userConcept s) selectedIdeas t st response) of
               Inr concepts \<Rightarrow>
                 s1\<lparr> adConcepts := concepts, editableConcepts := map copy_obj concepts,
                     reviewIndex := 0, stage := ReviewingConcepts \<rparr>
             | Inl err \<Rightarrow> s1\<lparr> error := Some (error_text err), stage := IdeasGenerated \<rparr>)
      | _ \<Rightarrow> s\<lparr> error := Some ''Something went wrong. Please start over.'' \<rparr>)"

subsection \<open>Editing the working copies\<close>

text \<open>
  The loop of \<^verbatim>\<open>handleConceptEdit\<close> over the segments of the path, on the object
  \<open>kvs\<close> it has reached: \<open>k\<close> is the segment at hand and \<open>ks\<close> are the segments
  after it. At the last segment the value is stored. Before that, a property that is
  \<^verbatim>\<open>undefined\<close> is first set to an empty object, and the loop goes into the
  property. Going into \<^verbatim>\<open>null\<close> throws at the next access: the write of the
  last segment, or the read of a segment before it.
  A name that \<^verbatim>\<open>Object.prototype\<close> defines and the object does not have as its own
  is read from the prototype (and assigning \<^verbatim>\<open>__proto__\<close> a string does nothing).
\<close>

fun assign_path :: "jsobj \<Rightarrow> string \<Rightarrow> string list \<Rightarrow> string \<Rightarrow> jsobj outcome" where
  "assign_path kvs k [] v =
     (if k = ''__proto__'' \<and> map_of kvs k = None then Value kvs
      else Value (AList.update k (Str v) kvs))"
| "assign_path kvs k (k' # ks) v =
     (case map_of kvs k of
        None \<Rightarrow>
          if k \<in> set object_prototype_keys then OutsideModel
          else (case assign_path [] k' ks v of
                  Value c \<Rightarrow> Value (AList.update k (Obj c) kvs)
                | Throws e \<Rightarrow> Throws e
                | OutsideModel \<Rightarrow> OutsideModel)
      | Some Undefined \<Rightarrow>
          (case assign_path [] k' ks v of
             Value c \<Rightarrow> Value (AList.update k (Obj c) kvs)
           | Throws e \<Rightarrow> Throws e
           | OutsideModel \<Rightarrow> OutsideModel)
      | Some (Obj child) \<Rightarrow>
          (case assign_path child k' ks v of
             Value c \<Rightarrow> Value (AList.update k (Obj c) kvs)
           | Throws e \<Rightarrow> Throws e
           | OutsideModel \<Rightarrow> OutsideModel)
      | Some Null \<Rightarrow>
          Throws (if ks = [] then cannot_set ''null'' k' else cannot_read ''null'' k')
      | Some _ \<Rightarrow> OutsideModel)"

text \<open>
  The updater that \<^verbatim>\<open>handleConceptEdit\<close> gives to \<^verbatim>\<open>setEditableConcepts\<close>:
  deep copy, then the loop on the concept at \<^verbatim>\<open>reviewIndex\<close> (the argument
  \<open>index\<close>). With no concept at that index the first property access throws: the
  write when the path has one segment, the read of the first segment otherwise.
\<close>

definition conceptEditUpdater ::
    "nat \<Rightarrow> string \<Rightarrow> string \<Rightarrow> jsobj list \<Rightarrow> jsobj list outcome" where
  "conceptEditUpdater index field v prev =
     (let newConcepts = map copy_obj prev;
          fields = split_dots field
      in case element newConcepts index of
           None \<Rightarrow>
             Throws (if tl fields = [] then cannot_set ''undefined'' (hd fields)
                     else cannot_read ''undefined'' (hd fields))
         | Some conceptToEdit \<Rightarrow>
             (case assign_path conceptToEdit (hd fields) (tl fields) v of
                Value c \<Rightarrow> Value (newConcepts[index := c])
              | Throws e \<Rightarrow> Throws e
              | OutsideModel \<Rightarrow> OutsideModel))"

definition handleConceptEdit :: "string \<Rightarrow> string \<Rightarrow> app_state \<Rightarrow> app_state outcome" where
  "handleConceptEdit field v s =
     (case conceptEditUpdater (reviewIndex s) field v (editableConcepts s) of
        Value newConcepts \<Rightarrow> Value (s\<lparr> editableConcepts := newConcepts \<rparr>)
      | Throws e \<Rightarrow> Throws e
      | OutsideModel \<Rightarrow> OutsideModel)"

definition enhance_error_text :: "thrown \<Rightarrow> string" where
  "enhance_error_text err =
     (case err of ErrorObj message \<Rightarrow> ''Failed to enhance styling: '' @ message
               | NotAnError \<Rightarrow> ''An unknown error occurred during enhancement.'')"

definition handleEnhanceStyling :: "thrown + string \<Rightarrow> app_state \<Rightarrow> app_state outcome" where
  "handleEnhanceStyling response s =
     (case element (editableConcepts s) (reviewIndex s) of
        None \<Rightarrow> Value s
      | Some conceptToEnhance \<Rightarrow>
          (let s1 = s\<lparr> isEnhancingStyling := True, error := None \<rparr> in
           case enhanceStylingNotes conceptToEnhance response of
             Inr newStylingNotes \<Rightarrow>
               (case handleConceptEdit ''stylingNotes'' newStylingNotes s1 of
                  Value s2 \<Rightarrow> Value (s2\<lparr> isEnhancingStyling := False \<rparr>)
                | Throws e \<Rightarrow> Throws e
                | OutsideModel \<Rightarrow> OutsideModel)
           | Inl err \<Rightarrow>
               Value (s1\<lparr> error := Some (enhance_error_text err), isEnhancingStyling := False \<rparr>)))"

subsection \<open>Copy options and final outputs\<close>

definition handleGenerateHooksAndCtasForSelection ::
    "thrown + generative_part \<Rightarrow> jsobj reply \<Rightarrow> app_state \<Rightarrow> app_state" where
  "handleGenerateHooksAndCtasForSelection imagePart response s =
     (case imageFile s of
        None \<Rightarrow> s
      | Some f \<Rightarrow>
          if editableConcepts s = [] then s
          else
            (let s1 = s\<lparr> adConcepts := editableConcepts s,
                         stage := GeneratingHooksAndCtasForSelection, error := None \<rparr> in
             case await_then imagePart (\<lambda>part.
                    generateHooksAndCtas part (editableConcepts s)
                      \<lparr> url = Some (ctaUrl s), whatsapp = Some (ctaWhatsApp s) \<rparr>
                      (copyLanguage s) response) of
               Inr hooksResult \<Rightarrow>
                 s1\<lparr> hooksAndCtasForSelection := Some hooksResult, stage := SelectingHooksAndCtas \<rparr>
             | Inl err \<Rightarrow> s1\<lparr> error := Some (error_text err), stage := ReviewingConcepts \<rparr>))"

definition handleFinalizeAndGenerateOutputs ::
    "jsobj list \<Rightarrow> thrown + generative_part \<Rightarrow> jsobj list reply \<Rightarrow> app_state \<Rightarrow> app_state" where
  "handleFinalizeAndGenerateOutputs conceptsWithSelectedCopy imagePart response s =
     (case (imageFile s, advertType s) of
        (Some f, Some t) \<Rightarrow>
          if conceptsWithSelectedCopy = [] then s
          else
            (let s1 = s\<lparr> adConcepts := conceptsWithSelectedCopy,
                         stage := GeneratingFinalOutputs, error := None \<rparr> in
             case t of
               Still \<Rightarrow>
                 (case await_then imagePart (\<lambda>part.
                         generateImagePrompts part conceptsWithSelectedCopy (priceTag s) response) of
                    Inr prompts \<Rightarrow>
                      s1\<lparr> imageGenPrompts := Some prompts, stage := FinalOutputsGenerated \<rparr>
                  | Inl err \<Rightarrow>
                      s1\<lparr> error := Some (error_text err), stage := SelectingHooksAndCtas \<rparr>)
             | Video \<Rightarrow>
                 (case await_then imagePart (\<lambda>part.
                         generateVideoScripts part conceptsWithSelectedCopy response) of
                    Inr scripts \<Rightarrow>
                      s1\<lparr> videoScripts := Some scripts, stage := FinalOutputsGenerated \<rparr>
                  | Inl err \<Rightarrow>
                      s1\<lparr> error := Some (error_text err), stage := SelectingHooksAndCtas \<rparr>))
      | _ \<Rightarrow> s)"

section \<open>The component \<^verbatim>\<open>HookAndCtaSelector\<close>\<close>

text \<open>
  The component holds the chosen hook and the chosen CTA of each concept in two
  records keyed by \<^verbatim>\<open>concept.optionName\<close>. \<^verbatim>\<open>handleConfirm\<close> maps every
  concept to a copy (\<^verbatim>\<open>{...concept, hookLine: ..., cta: ...}\<close>) and hands the list to
  \<^verbatim>\<open>onConfirm\<close>.

  \<open>record_member r k\<close> is \<^verbatim>\<open>r[k]\<close> on such a record: the own property, \<^verbatim>\<open>undefined\<close>
  for a name that is nowhere defined, and \<open>None\<close> for a name that only
  \<^verbatim>\<open>Object.prototype\<close> defines.
\<close>

definition record_member :: "jsobj \<Rightarrow> string \<Rightarrow> jsval option" where
  "record_member r k =
     (case map_of r k of
        Some v \<Rightarrow> Some v
      | None \<Rightarrow> if k \<in> set object_prototype_keys then None else Some Undefined)"

definition confirm_concept :: "jsobj \<Rightarrow> jsobj \<Rightarrow> jsobj \<Rightarrow> jsobj outcome" where
  "confirm_concept selectedHooks selectedCtas concept =
     (case to_string (own concept ''optionName'') of
        Inl e \<Rightarrow> Throws e
      | Inr name \<Rightarrow>
          (case (record_member selectedHooks name, record_member selectedCtas name) of
             (Some hook, Some cta) \<Rightarrow>
               Value (AList.update ''cta'' cta (AList.update ''hookLine'' hook concept))
           | _ \<Rightarrow> OutsideModel))"

text \<open>\<^verbatim>\<open>concepts.map(...)\<close>: the first concept whose copy throws ends the call.\<close>

fun confirm_concepts :: "jsobj \<Rightarrow> jsobj \<Rightarrow> jsobj list \<Rightarrow> jsobj list outcome" where
  "confirm_concepts selectedHooks selectedCtas [] = Value []"
| "confirm_concepts selectedHooks selectedCtas (concept # rest) =
     (case confirm_concept selectedHooks selectedCtas concept of
        Value c \<Rightarrow>
          (case confirm_concepts selectedHooks selectedCtas rest of
             Value cs \<Rightarrow> Value (c # cs)
           | Throws e \<Rightarrow> Throws e
           | OutsideModel \<Rightarrow> OutsideModel)
      | Throws e \<Rightarrow> Throws e
      | OutsideModel \<Rightarrow> OutsideModel)"

text \<open>
  \<^verbatim>\<open>handleConfirm\<close>: \<open>None\<close> when it returns at \<^verbatim>\<open>if (isLoading) return\<close>,
  otherwise the list given to \<^verbatim>\<open>onConfirm\<close> (or what stopped the mapping).
\<close>

definition handleConfirm ::
    "bool \<Rightarrow> jsobj list \<Rightarrow> jsobj \<Rightarrow> jsobj \<Rightarrow> jsobj list outcome option" where
  "handleConfirm isLoading concepts selectedHooks selectedCtas =
     (if isLoading then None
      else Some (confirm_concepts selectedHooks selectedCtas concepts))"

text \<open>
  The wiring in \<^verbatim>\<open>App.tsx\<close>: the selector is given \<^verbatim>\<open>concepts={adConcepts}\<close>,
  \<^verbatim>\<open>isLoading={stage === 'generatingFinalOutputs'}\<close> and
  \<^verbatim>\<open>onConfirm={handleFinalizeAndGenerateOutputs}\<close>.
\<close>

definition confirmSelection ::
    "jsobj \<Rightarrow> jsobj \<Rightarrow> thrown + generative_part \<Rightarrow> jsobj list reply \<Rightarrow> app_state \<Rightarrow>
     app_state outcome" where
  "confirmSelection selectedHooks selectedCtas imagePart response s =
     (case handleConfirm (stage s = GeneratingFinalOutputs) (adConcepts s)
             selectedHooks selectedCtas of
        None \<Rightarrow> Value s
      | Some (Value finalConcepts) \<Rightarrow>
          Value (handleFinalizeAndGenerateOutputs finalConcepts imagePart response s)
      | Some (Throws e) \<Rightarrow> Throws e
      | Some OutsideModel \<Rightarrow> OutsideModel)"

section \<open>Notions used in the statements\<close>

text \<open>The cells a reset empties, and the form inputs, as predicates on states.\<close>

definition artifacts_cleared :: "app_state \<Rightarrow> bool" where
  "artifacts_cleared s \<longleftrightarrow>
     advertStyles s = [] \<and> conceptIdeas s = Arr [] \<and> adConcepts s = [] \<and>
     editableConcepts s = [] \<and> hooksAndCtasForSelection s = None \<and>
     imageGenPrompts s = None \<and> videoScripts s = None \<and>
     selectedStyle s = None \<and> advertType s = None \<and> error s = None"

definition same_form_inputs :: "app_state \<Rightarrow> app_state \<Rightarrow> bool" where
  "same_form_inputs s t \<longleftrightarrow>
     ctaUrl t = ctaUrl s \<and> ctaWhatsApp t = ctaWhatsApp s \<and> priceTag t = priceTag s \<and>
     brandGuidelines t = brandGuidelines s \<and> userConcept t = userConcept s \<and>
     copyLanguage t = copyLanguage s"

text \<open>
  Reading a schema: the schema of a property of the array's items, and the names an
  object schema declares and requires.
\<close>

definition item_property :: "schema \<Rightarrow> string \<Rightarrow> schema option" where
  "item_property sch k =
     (case sch of
        TArray (TObject props req) \<Rightarrow> (case map_of props k of Some (Some p) \<Rightarrow> Some p | _ \<Rightarrow> None)
      | _ \<Rightarrow> None)"

definition declared_names :: "schema \<Rightarrow> string list" where
  "declared_names sch = (case sch of TObject props req \<Rightarrow> map fst props | _ \<Rightarrow> [])"

definition required_names :: "schema \<Rightarrow> string list" where
  "required_names sch = (case sch of TObject props req \<Rightarrow> req | _ \<Rightarrow> [])"

definition video_only_keys :: "string list" where
  "video_only_keys = [''cameraMovement'', ''editingStyle'', ''soundDesign'']"

text \<open>
  The shape that the specification asks of a concept of the given format: the three
  video-only keys in \<^verbatim>\<open>technicalSpecs\<close> for a video; for a still image the format
  \<^verbatim>\<open>"Still Image"\<close> and none of the three keys.
\<close>

definition format_shape :: "advert_type \<Rightarrow> jsobj \<Rightarrow> bool" where
  "format_shape t c =
     (case own c ''technicalSpecs'' of
        Obj ts \<Rightarrow>
          (if t = Video then list_all (\<lambda>k. map_of ts k \<noteq> None) video_only_keys
           else own c ''format'' = Str ''Still Image'' \<and>
                list_all (\<lambda>k. map_of ts k = None) video_only_keys)
      | _ \<Rightarrow> False)"

text \<open>The CTA text of a concept mentions a given text.\<close>

definition cta_mentions :: "string \<Rightarrow> jsobj \<Rightarrow> bool" where
  "cta_mentions x c = (case own c ''cta'' of Str text \<Rightarrow> sublist x text | _ \<Rightarrow> False)"

text \<open>A state in which an image, a format and a style are chosen, used in examples.\<close>

definition sample_state :: app_state where
  "sample_state =
     initial_state\<lparr> imageFile := Some (File ''shoe.png''), imageUrl := Some ''blob:1'',
       advertType := Some Still,
       selectedStyle := Some \<lparr> title = ''Bold Minimalism'', summary = ''Plain backdrop'' \<rparr>,
       conceptIdeas := Arr [Obj [(''title'', Str ''Sunrise run''), (''summary'', Str ''A runner at dawn'')],
                            Obj [(''title'', Str ''City night''), (''summary'', Str ''Neon reflections'')]],
       stage := IdeasGenerated \<rparr>"

text \<open>
  The value at a path of property names in an object (\<open>None\<close> where there is no
  such position), and the paths that \<^verbatim>\<open>handleConceptEdit\<close> is specified for: one
  segment, or two segments of which the first is absent from the concept or holds an
  object.
\<close>

fun leaf :: "jsobj \<Rightarrow> string list \<Rightarrow> jsval option" where
  "leaf kvs [] = Some (Obj kvs)"
| "leaf kvs (k # ks) =
     (case map_of kvs k of
        None \<Rightarrow> None
      | Some (Obj child) \<Rightarrow> leaf child ks
      | Some v \<Rightarrow> (if ks = [] then Some v else None))"

fun addressable :: "jsobj \<Rightarrow> string list \<Rightarrow> bool" where
  "addressable kvs [k] = True"
| "addressable kvs [k1, k2] =
     (case map_of kvs k1 of None \<Rightarrow> True | Some (Obj child) \<Rightarrow> True | Some _ \<Rightarrow> False)"
| "addressable kvs _ = False"

text \<open>
  An object that its JSON copy leaves as it is: no property is \<^verbatim>\<open>undefined\<close>,
  and every property value is its own copy.
\<close>

definition stable_props :: "jsobj \<Rightarrow> bool" where
  "stable_props kvs \<longleftrightarrow> (\<forall>p \<in> set kvs. snd p \<noteq> Undefined \<and> json_copy (snd p) = snd p)"

text \<open>Concrete inputs, used in examples.\<close>

definition sample_part :: generative_part where
  "sample_part = GenerativePart ''image/png''"

definition two_ideas :: "concept_idea list" where
  "two_ideas =
     [\<lparr> idea_title = ''Sunrise run'', idea_summary = ''A runner at dawn'' \<rparr>,
      \<lparr> idea_title = ''City night'', idea_summary = ''Neon reflections'' \<rparr>]"

definition sample_style :: advert_style where
  "sample_style = \<lparr> title = ''Bold Minimalism'', summary = ''Plain backdrop'' \<rparr>"

definition two_concepts :: "jsobj list" where
  "two_concepts =
     [[(''optionName'', Str ''Sunrise''), (''conceptSummary'', Str ''Dawn light''),
       (''technicalSpecs'', Obj [(''camera'', Str ''Hasselblad X2D''), (''mood'', Str ''bright'')]),
       (''hookLine'', Str ''Run early''), (''cta'', Str ''Learn More''),
       (''format'', Str ''Still Image'')],
      [(''optionName'', Str ''Night''), (''conceptSummary'', Str ''Neon light''),
       (''technicalSpecs'', Obj [(''camera'', Str ''Phase One''), (''mood'', Str ''moody'')]),
       (''hookLine'', Str ''Own the night''), (''cta'', Str ''Learn More''),
       (''format'', Str ''Still Image'')]]"

text \<open>
  The state after the two concepts were generated and the summary of the first one was
  edited: the working copies differ from the concepts locked in so far.
\<close>

definition review_state :: app_state where
  "review_state =
     sample_state\<lparr> stage := ReviewingConcepts, adConcepts := two_concepts,
       editableConcepts := two_concepts[0 := AList.update ''conceptSummary'' (Str ''Golden hour'') (two_concepts ! 0)] \<rparr>"

text \<open>A response to a still-image request that holds one concept, shaped as a video.\<close>

definition one_video_concept :: "jsobj list" where
  "one_video_concept =
     [[(''optionName'', Str ''Sunrise''),
       (''technicalSpecs'', Obj [(''camera'', Str ''ARRI Alexa''), (''cameraMovement'', Str ''slow pan'')]),
       (''format'', Str ''Short Video'')]]"

text \<open>A selection of one hook and one CTA for each of the two sample concepts.\<close>

definition chosen_hooks :: jsobj where
  "chosen_hooks = [(''Sunrise'', Str ''Beat the sun''), (''Night'', Str ''Lights on'')]"

definition chosen_ctas :: jsobj where
  "chosen_ctas = [(''Sunrise'', Str ''Shop now at https://x.com''), (''Night'', Str ''Message us'')]"

text \<open>A store of one concept that has no \<^verbatim>\<open>technicalSpecs\<close>.\<close>

definition one_concept :: "jsobj list" where
  "one_concept = [[(''optionName'', Str ''Sunrise''), (''stylingNotes'', Str ''linen'')]]"

text \<open>A store of one concept whose \<^verbatim>\<open>technicalSpecs\<close> is \<^verbatim>\<open>null\<close>.\<close>

definition null_specs :: "jsobj list" where
  "null_specs = [[(''optionName'', Str ''Sunrise''), (''technicalSpecs'', Null)]]"

section \<open>Auxiliary facts\<close>

subsection \<open>Texts inside concatenations\<close>

lemma sublist_skip: "sublist xs ys \<Longrightarrow> sublist xs (zs @ ys)"
  unfolding sublist_def by (metis append.assoc)

lemma sublist_in_first: "sublist xs ys \<Longrightarrow> sublist xs (ys @ zs)"
  unfolding sublist_def by (metis append.assoc)

lemma sublist_middle:
  assumes "suffix w l" and "prefix q r"
  shows "sublist (w @ u @ q) (l @ u @ r @ rest)"
proof -
  from assms obtain a b where "l = a @ w" and "r = q @ b"
    by (auto simp: suffix_def prefix_def)
  then have "l @ u @ r @ rest = a @ (w @ u @ q) @ (b @ rest)"
    by simp
  then show ?thesis
    unfolding sublist_def by blast
qed

lemma sublist_after_suffix:
  assumes "suffix w l" and "prefix xs ys"
  shows "sublist (w @ xs) (l @ ys)"
proof -
  from assms obtain a b where "l = a @ w" and "ys = xs @ b"
    by (auto simp: suffix_def prefix_def)
  then have "l @ ys = a @ (w @ xs) @ b"
    by simp
  then show ?thesis
    unfolding sublist_def by blast
qed

lemma suffix_skip: "suffix xs ys \<Longrightarrow> suffix xs (zs @ ys)"
  by (auto simp: suffix_def)

lemma suffix_tail: "suffix w l \<Longrightarrow> suffix (w @ rest) (l @ rest)"
  by (auto simp: suffix_def)

lemma differ_at_prefix:
  "take n xs \<noteq> take n ys \<Longrightarrow> n \<le> length xs \<Longrightarrow> n \<le> length ys \<Longrightarrow> xs @ us \<noteq> ys @ vs"
  by (metis append_eq_conv_conj append_take_drop_id length_take min.absorb2 take_append
      diff_is_0_eq' take_0 append_Nil2)

lemma ideas_prompt_enhanced_sentence:
  "sublist ''The goal is not to replace their idea, but to show them five professional, enhanced variations of it.''
     ''), and a guiding ad style.\<newline>        Your task is to act as a creative partner. Take the user's core idea and elevate it by blending it with 5 distinct, highly trending, and proven high-CTR (Click-Through Rate) strategies relevant to the product type, chosen format, and ad style. The goal is not to replace their idea, but to show them five professional, enhanced variations of it.\<newline>\<newline>        ''"
  by code_simp

subsection \<open>The deep copy and the path assignment\<close>

lemma assign_path_idem:
  "assign_path kvs k ks v = Value c \<Longrightarrow> assign_path c k ks v = Value c"
proof (induction ks arbitrary: kvs k c)
  case Nil
  then show ?case
    by (auto simp: AList.update_conv' split: if_splits)
next
  case (Cons k' ks)
  show ?case
  proof (cases "map_of kvs k")
    case None
    with Cons.prems obtain c0 where c0: "assign_path [] k' ks v = Value c0"
      and c: "c = AList.update k (Obj c0) kvs"
      by (auto split: if_splits outcome.splits)
    from Cons.IH [OF c0] show ?thesis
      by (simp add: c AList.update_conv')
  next
    case (Some x)
    show ?thesis
    proof (cases x)
      case Undefined
      with Some Cons.prems obtain c0 where c0: "assign_path [] k' ks v = Value c0"
        and c: "c = AList.update k (Obj c0) kvs"
        by (auto split: outcome.splits)
      from Cons.IH [OF c0] show ?thesis
        by (simp add: c AList.update_conv')
    next
      case (Obj child)
      with Some Cons.prems obtain c0 where c0: "assign_path child k' ks v = Value c0"
        and c: "c = AList.update k (Obj c0) kvs"
        by (auto split: outcome.splits)
      from Cons.IH [OF c0] show ?thesis
        by (simp add: c AList.update_conv')
    qed (use Some Cons.prems in auto)
  qed
qed

lemma json_copy_idem: "json_copy (json_copy x) = json_copy x"
proof (induction x)
  case (Arr xs)
  then show ?case
    by (auto simp: o_def)
next
  case (Obj kvs)
  have "filter (\<lambda>p. snd p \<noteq> Undefined) (map (map_prod id json_copy) ys) = ys"
    if "ys = filter (\<lambda>p. snd p \<noteq> Undefined) (map (map_prod id json_copy) kvs)" for ys
  proof -
    have "map (map_prod id json_copy) ys = ys"
      unfolding that using Obj.IH
      by (intro map_idI) (auto simp: map_prod_def split: prod.splits)
    moreover have "filter (\<lambda>p. snd p \<noteq> Undefined) ys = ys"
      unfolding that by simp
    ultimately show ?thesis by simp
  qed
  then show ?case by simp
qed (auto simp: non_finite_def)

lemma copy_obj_idem: "copy_obj (copy_obj kvs) = copy_obj kvs"
  using json_copy_idem [of "Obj kvs"] by (simp add: copy_obj_def)

lemma stable_props_copy: "stable_props kvs \<Longrightarrow> copy_obj kvs = kvs"
proof -
  assume st: "stable_props kvs"
  then have "map (map_prod id json_copy) kvs = kvs"
    by (intro map_idI) (auto simp: stable_props_def map_prod_def split: prod.splits)
  moreover from st have "filter (\<lambda>p. snd p \<noteq> Undefined) kvs = kvs"
    by (auto simp: stable_props_def)
  ultimately show ?thesis
    by (simp add: copy_obj_def)
qed

lemma copy_stable_props: "copy_obj kvs = kvs \<Longrightarrow> stable_props kvs"
proof -
  assume eq: "copy_obj kvs = kvs"
  have "\<forall>p \<in> set (copy_obj kvs). snd p \<noteq> Undefined \<and> json_copy (snd p) = snd p"
    by (auto simp: copy_obj_def json_copy_idem)
  with eq show ?thesis
    by (simp add: stable_props_def)
qed

lemma stable_props_iff: "stable_props kvs \<longleftrightarrow> copy_obj kvs = kvs"
  using stable_props_copy copy_stable_props by blast

lemma set_update_subset: "set (AList.update k x kvs) \<subseteq> insert (k, x) (set kvs)"
  by (induction kvs) auto

lemma stable_props_update:
  "stable_props kvs \<Longrightarrow> x \<noteq> Undefined \<Longrightarrow> json_copy x = x \<Longrightarrow> stable_props (AList.update k x kvs)"
  using set_update_subset [of k x kvs] by (auto simp: stable_props_def)

lemma stable_props_child:
  "stable_props kvs \<Longrightarrow> map_of kvs k = Some (Obj child) \<Longrightarrow> stable_props child"
proof -
  assume st: "stable_props kvs" and m: "map_of kvs k = Some (Obj child)"
  from m have "(k, Obj child) \<in> set kvs"
    by (rule map_of_SomeD)
  with st have "json_copy (Obj child) = Obj child"
    by (auto simp: stable_props_def)
  then have "copy_obj child = child"
    by (simp add: copy_obj_def)
  then show ?thesis
    by (rule copy_stable_props)
qed

lemma stable_props_Obj: "stable_props c \<Longrightarrow> json_copy (Obj c) = Obj c"
  using stable_props_copy [of c] by (simp add: copy_obj_def)

lemma assign_path_stable:
  "assign_path kvs k ks v = Value c \<Longrightarrow> stable_props kvs \<Longrightarrow> stable_props c"
proof (induction ks arbitrary: kvs k c)
  case Nil
  then show ?case
    by (auto simp: stable_props_update split: if_splits)
next
  case (Cons k' ks)
  have empty: "stable_props []"
    by (simp add: stable_props_def)
  show ?case
  proof (cases "map_of kvs k")
    case None
    with Cons.prems obtain c0 where c0: "assign_path [] k' ks v = Value c0"
      and c: "c = AList.update k (Obj c0) kvs"
      by (auto split: if_splits outcome.splits)
    from Cons.IH [OF c0 empty] have "json_copy (Obj c0) = Obj c0"
      by (rule stable_props_Obj)
    with Cons.prems(2) show ?thesis
      unfolding c by (intro stable_props_update) simp_all
  next
    case (Some x)
    show ?thesis
    proof (cases x)
      case Undefined
      with Some Cons.prems obtain c0 where c0: "assign_path [] k' ks v = Value c0"
        and c: "c = AList.update k (Obj c0) kvs"
        by (auto split: outcome.splits)
      from Cons.IH [OF c0 empty] have "json_copy (Obj c0) = Obj c0"
        by (rule stable_props_Obj)
      with Cons.prems(2) show ?thesis
        unfolding c by (intro stable_props_update) simp_all
    next
      case (Obj child)
      with Some Cons.prems obtain c0 where c0: "assign_path child k' ks v = Value c0"
        and c: "c = AList.update k (Obj c0) kvs"
        by (auto split: outcome.splits)
      from Some Obj Cons.prems(2) have "stable_props child"
        by (auto intro: stable_props_child)
      from Cons.IH [OF c0 this] have "json_copy (Obj c0) = Obj c0"
        by (rule stable_props_Obj)
      with Cons.prems(2) show ?thesis
        unfolding c by (intro stable_props_update) simp_all
    qed (use Some Cons.prems in auto)
  qed
qed

lemma conceptEditUpdater_idem:
  assumes "conceptEditUpdater i f v store = Value store'"
  shows "conceptEditUpdater i f v store' = Value store'"
proof -
  let ?copies = "map copy_obj store"
  from assms have i: "i < length store"
    by (auto simp: conceptEditUpdater_def Let_def element_def split: if_splits)
  with assms obtain c where
    c: "assign_path (copy_obj (store ! i)) (hd (split_dots f)) (tl (split_dots f)) v = Value c"
    and store': "store' = ?copies[i := c]"
    by (auto simp: conceptEditUpdater_def Let_def element_def split: outcome.splits)
  have "stable_props (copy_obj (store ! i))"
    by (rule copy_stable_props) (rule copy_obj_idem)
  with c have "stable_props c"
    by (rule assign_path_stable)
  then have cc: "copy_obj c = c"
    by (rule stable_props_copy)
  have copies: "map copy_obj store' = store'"
    unfolding store' by (simp add: map_update cc copy_obj_idem o_def)
  from c have "assign_path c (hd (split_dots f)) (tl (split_dots f)) v = Value c"
    by (rule assign_path_idem)
  with i show ?thesis
    by (simp add: conceptEditUpdater_def Let_def element_def copies) (simp add: store')
qed

subsection \<open>Positions in an edited concept\<close>

lemma leaf_empty: "ps \<noteq> [] \<Longrightarrow> leaf [] ps = None"
  by (cases ps) auto

lemma leaf_update_other: "q \<noteq> k \<Longrightarrow> leaf (AList.update k x kvs) (q # ps) = leaf kvs (q # ps)"
  by (simp add: AList.update_conv')

lemma leaf_update_below:
  "ps \<noteq> [] \<Longrightarrow> leaf (AList.update k (Obj c) kvs) (k # ps) = leaf c ps"
  by (simp add: AList.update_conv')

lemma assign_path_leaf:
  assumes "assign_path kvs k ks v = Value c"
      and "set (k # ks) \<inter> set object_prototype_keys = {}"
  shows "leaf c (k # ks) = Some (Str v) \<and>
         (\<forall>p. \<not> prefix p (k # ks) \<and> \<not> prefix (k # ks) p \<longrightarrow> leaf c p = leaf kvs p)"
  using assms
proof (induction ks arbitrary: kvs k c)
  case Nil
  from Nil.prems have "k \<noteq> ''__proto__''"
    by (auto simp: object_prototype_keys_def)
  with Nil.prems have c: "c = AList.update k (Str v) kvs"
    by simp
  have "leaf c p = leaf kvs p" if "\<not> prefix p [k]" "\<not> prefix [k] p" for p
  proof (cases p)
    case Nil
    with that show ?thesis by simp
  next
    case (Cons q ps)
    with that have "q \<noteq> k" by auto
    then show ?thesis
      unfolding c Cons by (rule leaf_update_other)
  qed
  moreover have "leaf c [k] = Some (Str v)"
    by (simp add: c AList.update_conv')
  ultimately show ?case by blast
next
  case (Cons k' ks)
  from Cons.prems(2) have inner: "set (k' # ks) \<inter> set object_prototype_keys = {}"
    and k: "k \<notin> set object_prototype_keys"
    by auto
  from Cons.prems(1) k obtain child c0 where
    c0: "assign_path child k' ks v = Value c0" and c: "c = AList.update k (Obj c0) kvs"
    and child: "map_of kvs k = None \<and> child = [] \<or> map_of kvs k = Some Undefined \<and> child = [] \<or>
                map_of kvs k = Some (Obj child)"
    by (auto split: option.splits jsval.splits outcome.splits)
  from Cons.IH [OF c0 inner] have here: "leaf c0 (k' # ks) = Some (Str v)"
    and others: "\<And>p. \<not> prefix p (k' # ks) \<Longrightarrow> \<not> prefix (k' # ks) p \<Longrightarrow> leaf c0 p = leaf child p"
    by blast+
  have below: "leaf kvs (k # ps) = leaf child ps" if "ps \<noteq> []" for ps
    using child that by (auto simp: leaf_empty)
  have "leaf c p = leaf kvs p" if "\<not> prefix p (k # k' # ks)" "\<not> prefix (k # k' # ks) p" for p
  proof (cases p)
    case Nil
    with that show ?thesis by simp
  next
    case p: (Cons q ps)
    show ?thesis
    proof (cases "q = k")
      case False
      then show ?thesis
        unfolding c p by (rule leaf_update_other)
    next
      case True
      with that p have ps: "ps \<noteq> []" "\<not> prefix ps (k' # ks)" "\<not> prefix (k' # ks) ps"
        by auto
      then have "leaf c (k # ps) = leaf c0 ps"
        unfolding c by (intro leaf_update_below)
      also from ps have "\<dots> = leaf child ps"
        by (intro others)
      also have "\<dots> = leaf kvs (k # ps)"
        by (rule below [OF ps(1), symmetric])
      finally show ?thesis
        by (simp add: p True)
    qed
  qed
  moreover have "leaf c (k # k' # ks) = Some (Str v)"
  proof -
    have "leaf c (k # k' # ks) = leaf c0 (k' # ks)"
      unfolding c by (rule leaf_update_below) simp
    with here show ?thesis
      by (simp only:)
  qed
  ultimately show ?case by blast
qed

lemma split_dots_nonempty: "split_dots f \<noteq> []"
  by (induction f) (auto split: list.splits)

lemma assign_path_addressable:
  assumes "addressable kvs (k # ks)"
      and "set (k # ks) \<inter> set object_prototype_keys = {}"
  shows "\<exists>c. assign_path kvs k ks v = Value c"
proof (cases ks)
  case Nil
  then show ?thesis by simp
next
  case (Cons k' rest)
  with assms(1) have rest: "rest = []"
    by (cases rest) auto
  from assms(2) have "k \<notin> set object_prototype_keys"
    by auto
  with assms(1) show ?thesis
    unfolding Cons rest by (auto split: option.splits jsval.splits)
qed

subsection \<open>Confirming the selected copy\<close>

lemma confirm_concept_frame:
  assumes "confirm_concept sh sc c = Value c'"
  shows "\<forall>k. k \<noteq> ''hookLine'' \<longrightarrow> k \<noteq> ''cta'' \<longrightarrow> map_of c' k = map_of c k"
  using assms
  by (auto simp: confirm_concept_def AList.update_conv' split: sum.splits option.splits)

lemma confirm_concepts_frame:
  assumes "confirm_concepts sh sc cs = Value cs'"
  shows "list_all2 (\<lambda>c c'. \<forall>k. k \<noteq> ''hookLine'' \<longrightarrow> k \<noteq> ''cta'' \<longrightarrow> map_of c' k = map_of c k) cs cs'"
  using assms
proof (induction cs arbitrary: cs')
  case Nil
  then show ?case by simp
next
  case (Cons c cs)
  from Cons.prems obtain d ds where d: "confirm_concept sh sc c = Value d"
    and ds: "confirm_concepts sh sc cs = Value ds" and cs': "cs' = d # ds"
    by (auto split: outcome.splits)
  from confirm_concept_frame [OF d] Cons.IH [OF ds] show ?case
    unfolding cs' by simp
qed

subsection \<open>The CTA lines of the instruction texts\<close>

lemma full_prompt_rule_sentence:
  "sublist ''The CTA must be context-aware: if a URL is given, use it. If a WhatsApp number is given, use it. If both, suggest a CTA that incorporates both. If neither, use a generic CTA like \"Learn More\".''
   ''\"\<newline>    \<newline>    For EACH of the two chosen concepts, generate a complete plan.\<newline>    1.  **Craft Ad Copy:** Write a compelling hook, ad copy, and a strong CTA. The CTA must be context-aware: if a URL is given, use it. If a WhatsApp number is given, use it. If both, suggest a CTA that incorporates both. If neither, use a generic CTA like \"Learn More\".\<newline>    2.  **Provide High-End Details:** For a still, detail the 'shootSetup'. For a video, detail the 'sceneDescription'. Recommend high-end cameras (e.g., ARRI Alexa, RED Komodo, Hasselblad, Phase One), lenses, and settings appropriate for a major commercial production. Include video-specific details like camera movement and sound design if it's a video.\<newline>    3.  **Justify Trend:** Explain why this high-budget execution will be attention-grabbing and lead to high CTR.\<newline>\<newline>    Output a JSON array containing exactly TWO ad concept objects, one for each selected idea.''"
  by code_simp

lemma full_prompt_builds:
  "2 \<le> length ideas \<Longrightarrow> \<exists>p. generateFullConcepts_prompt cta brand ideas t st = Inr p"
  by (cases ideas; cases "tl ideas") (auto simp: generateFullConcepts_prompt_def Let_def)

lemma full_prompt_cta_lines:
  assumes "generateFullConcepts_prompt cta brand ideas t st = Inr p"
  shows "sublist (''- Website for CTA: \"'' @ opt_or_default (url cta) ''Not provided'' @
                  ''\"\<newline>    - WhatsApp for CTA: \"'' @ opt_or_default (whatsapp cta) ''Not provided'' @ ''\"'') p"
proof -
  from assms obtain i0 i1 rest where ideas: "ideas = i0 # i1 # rest"
    by (auto simp: generateFullConcepts_prompt_def Let_def split: list.splits)
  show ?thesis
    using assms unfolding ideas generateFullConcepts_prompt_def Let_def
    apply (simp only: list.case sum.inject)
    apply (erule subst)
    apply (rule sublist_skip)
    apply (rule sublist_skip)
    apply (rule sublist_skip)
    apply (rule sublist_skip)
    apply (rule sublist_skip)
    apply (rule sublist_skip)
    apply (rule sublist_skip)
    apply (rule sublist_skip)
    apply (rule sublist_skip)
    apply (rule sublist_skip)
    apply (rule sublist_after_suffix)
     apply (simp add: suffix_to_prefix)
    apply simp
    done
qed

lemma full_prompt_rule:
  assumes "generateFullConcepts_prompt cta brand ideas t st = Inr p"
  shows "sublist ''The CTA must be context-aware: if a URL is given, use it. If a WhatsApp number is given, use it. If both, suggest a CTA that incorporates both. If neither, use a generic CTA like \"Learn More\".'' p"
proof -
  from assms obtain i0 i1 rest where ideas: "ideas = i0 # i1 # rest"
    by (auto simp: generateFullConcepts_prompt_def Let_def split: list.splits)
  show ?thesis
    using assms unfolding ideas generateFullConcepts_prompt_def Let_def
    apply (simp only: list.case sum.inject)
    apply (erule subst)
    apply (rule sublist_skip)+
    apply (rule full_prompt_rule_sentence)
    done
qed

lemma hooks_prompt_rule_sentence:
  "sublist ''These CTAs MUST intelligently incorporate the provided Website URL and/or WhatsApp number. If both are provided, create CTAs that leverage them together (e.g., \"Shop now at our website or message us on WhatsApp!\"). If only one is provided, use it directly.''
   ''. These CTAs MUST intelligently incorporate the provided Website URL and/or WhatsApp number. If both are provided, create CTAs that leverage them together (e.g., \"Shop now at our website or message us on WhatsApp!\"). If only one is provided, use it directly.\<newline>\<newline>    Output the result in a JSON object.''"
  by code_simp

lemma hooks_prompt_cta_lines:
  assumes "generateHooksAndCtas_prompt cs cta lang = Inr p"
  shows "sublist (''- Website URL: '' @ opt_or_default (url cta) ''Not provided'' @
                  ''\<newline>    - WhatsApp Number: '' @ opt_or_default (whatsapp cta) ''Not provided'' @ ''\<newline>'') p"
proof -
  from assms obtain n0 s0 n1 s1 where
    "interpolate (element cs 0) ''optionName'' = Inr n0"
    "interpolate (element cs 0) ''conceptSummary'' = Inr s0"
    "interpolate (element cs 1) ''optionName'' = Inr n1"
    "interpolate (element cs 1) ''conceptSummary'' = Inr s1"
    by (auto simp: generateHooksAndCtas_prompt_def split: sum.splits)
  with assms show ?thesis
    unfolding generateHooksAndCtas_prompt_def
    apply (simp only: sum.inject sum.case)
    apply (erule subst)
    apply (rule sublist_skip)
    apply (rule sublist_skip)
    apply (rule sublist_skip)
    apply (rule sublist_skip)
    apply (rule sublist_skip)
    apply (rule sublist_skip)
    apply (rule sublist_skip)
    apply (rule sublist_skip)
    apply (rule sublist_skip)
    apply (rule sublist_skip)
    apply (rule sublist_after_suffix)
     apply (simp add: suffix_to_prefix)
    apply simp
    done
qed

lemma hooks_prompt_rule:
  assumes "generateHooksAndCtas_prompt cs cta lang = Inr p"
  shows "sublist ''These CTAs MUST intelligently incorporate the provided Website URL and/or WhatsApp number. If both are provided, create CTAs that leverage them together (e.g., \"Shop now at our website or message us on WhatsApp!\"). If only one is provided, use it directly.'' p"
proof -
  from assms obtain n0 s0 n1 s1 where
    "interpolate (element cs 0) ''optionName'' = Inr n0"
    "interpolate (element cs 0) ''conceptSummary'' = Inr s0"
    "interpolate (element cs 1) ''optionName'' = Inr n1"
    "interpolate (element cs 1) ''conceptSummary'' = Inr s1"
    by (auto simp: generateHooksAndCtas_prompt_def split: sum.splits)
  with assms show ?thesis
    unfolding generateHooksAndCtas_prompt_def
    apply (simp only: sum.inject sum.case)
    apply (erule subst)
    apply (rule sublist_skip)+
    apply (rule hooks_prompt_rule_sentence)
    done
qed

lemma hooks_prompt_end:
  assumes "generateHooksAndCtas_prompt cs cta lang = Inr p"
  shows "suffix (lang @ ''. These CTAs MUST intelligently incorporate the provided Website URL and/or WhatsApp number. If both are provided, create CTAs that leverage them together (e.g., \"Shop now at our website or message us on WhatsApp!\"). If only one is provided, use it directly.\<newline>\<newline>    Output the result in a JSON object.'') p"
proof -
  from assms obtain n0 s0 n1 s1 where
    "interpolate (element cs 0) ''optionName'' = Inr n0"
    "interpolate (element cs 0) ''conceptSummary'' = Inr s0"
    "interpolate (element cs 1) ''optionName'' = Inr n1"
    "interpolate (element cs 1) ''conceptSummary'' = Inr s1"
    by (auto simp: generateHooksAndCtas_prompt_def split: sum.splits)
  with assms show ?thesis
    unfolding generateHooksAndCtas_prompt_def
    apply (simp only: sum.inject sum.case)
    apply (erule subst)
    apply (rule suffix_skip)
    apply (rule suffix_skip)
    apply (rule suffix_skip)
    apply (rule suffix_skip)
    apply (rule suffix_skip)
    apply (rule suffix_skip)
    apply (rule suffix_skip)
    apply (rule suffix_skip)
    apply (rule suffix_skip)
    apply (rule suffix_skip)
    apply (rule suffix_skip)
    apply (rule suffix_skip)
    apply (rule suffix_skip)
    apply (rule suffix_skip)
    apply (rule suffix_skip)
    apply (rule suffix_skip)
    apply (rule suffix_skip)
    apply (rule suffix_order.refl)
    done
qed

subsection \<open>The stage functions on a response that parses\<close>

lemma full_concepts_parsed:
  "2 \<le> length ideas \<Longrightarrow>
   generateFullConcepts part cta brand draft ideas t st (Parsed v) = Inr v"
  using full_prompt_builds [of ideas cta brand t st]
  by (auto simp: generateFullConcepts_def)

lemma full_concepts_not_json:
  "2 \<le> length ideas \<Longrightarrow>
   generateFullConcepts part cta brand draft ideas t st NotJson =
     Inl (ErrorObj ''The AI returned an invalid response for full concepts.'')"
  using full_prompt_builds [of ideas cta brand t st]
  by (auto simp: generateFullConcepts_def)

subsection \<open>The sample inputs\<close>

lemma sample_hooks_prompt_builds:
  "\<exists>p. generateHooksAndCtas_prompt two_concepts cta lang = Inr p"
  by (simp add: generateHooksAndCtas_prompt_def interpolate_def element_def own_def two_concepts_def)

lemma sample_image_texts:
  "generateImagePrompts_interpolations two_concepts =
     Inr [''Run early'', ''Own the night'', ''Learn More'', ''Learn More'']"
  by (simp add: generateImagePrompts_interpolations_def interpolate_def element_def own_def
      two_concepts_def)

lemma learn_more_mentions_neither:
  "\<not> sublist ''https://x.com'' ''Learn More''" "\<not> sublist ''+15550100'' ''Learn More''"
  by code_simp+

lemma sample_hooks_prompt_has_no_generic:
  "case generateHooksAndCtas_prompt two_concepts \<lparr> url = None, whatsapp = None \<rparr> ''English'' of
      Inl e \<Rightarrow> False
    | Inr q \<Rightarrow>
        \<not> sublist ''neither'' q \<and> \<not> sublist ''Neither'' q \<and> \<not> sublist ''generic'' q \<and>
        \<not> sublist ''Learn More'' q"
  by code_simp

lemma sample_confirm:
  "\<exists>finalConcepts.
     handleConfirm False two_concepts chosen_hooks chosen_ctas = Some (Value finalConcepts)"
  by (simp add: handleConfirm_def confirm_concept_def record_member_def own_def two_concepts_def
      chosen_hooks_def chosen_ctas_def)

subsection \<open>The stores that the handlers write\<close>

lemma conceptEditUpdater_stable:
  assumes "conceptEditUpdater i f v store = Value store'"
  shows "map copy_obj store' = store'"
proof -
  from assms have i: "i < length store"
    by (auto simp: conceptEditUpdater_def Let_def element_def split: if_splits)
  with assms obtain c' where
    c': "assign_path (copy_obj (store ! i)) (hd (split_dots f)) (tl (split_dots f)) v = Value c'"
    and store': "store' = (map copy_obj store)[i := c']"
    by (auto simp: conceptEditUpdater_def Let_def element_def split: outcome.splits)
  have "stable_props (copy_obj (store ! i))"
    by (rule copy_stable_props) (rule copy_obj_idem)
  with c' have "stable_props c'"
    by (rule assign_path_stable)
  then have "copy_obj c' = c'"
    by (rule stable_props_copy)
  then show ?thesis
    unfolding store' by (simp add: map_update copy_obj_idem o_def)
qed

lemma full_concepts_store_stable:
  assumes "map copy_obj (editableConcepts s) = editableConcepts s"
  shows "map copy_obj (editableConcepts (handleGenerateFullConcepts ideas imagePart response s)) =
         editableConcepts (handleGenerateFullConcepts ideas imagePart response s)"
  using assms
  by (auto simp: handleGenerateFullConcepts_def Let_def copy_obj_idem o_def
      split: option.splits sum.splits)

lemma two_concepts_stable: "map copy_obj two_concepts = two_concepts"
  by (simp add: two_concepts_def copy_obj_def non_finite_def)

lemma one_concept_stable: "map copy_obj one_concept = one_concept"
  by (simp add: one_concept_def copy_obj_def non_finite_def)

lemma split_mood: "split_dots ''technicalSpecs.mood'' = [''technicalSpecs'', ''mood'']"
  by simp

subsection \<open>The enhancement of the styling notes\<close>

lemma conceptEditUpdater_one_segment:
  assumes "i < length store" and "split_dots f = [k]" and "k \<noteq> ''__proto__''"
  shows "conceptEditUpdater i f v store =
           Value ((map copy_obj store)[i := AList.update k (Str v) (copy_obj (store ! i))])"
  using assms by (simp add: conceptEditUpdater_def Let_def element_def)

lemma handleEnhanceStyling_returns: "\<exists>s'. handleEnhanceStyling response s = Value s'"
proof (cases "reviewIndex s < length (editableConcepts s)")
  case True
  have "split_dots ''stylingNotes'' = [''stylingNotes'']"
    by simp
  from conceptEditUpdater_one_segment [OF True this]
  show ?thesis
    using True
    by (cases response)
      (simp_all add: handleEnhanceStyling_def handleConceptEdit_def enhanceStylingNotes_def
        element_def Let_def)
next
  case False
  then show ?thesis
    by (simp add: handleEnhanceStyling_def element_def)
qed

section \<open>Properties\<close>

text \<open>
  C10. Both resets (the full reset that starts a new project, and the reset done when
  a new image is uploaded) empty every generated artifact, the chosen style, the chosen
  advert type and the error, and leave the six form inputs as they were.
\<close>

theorem reset_clears_artifacts_keeps_inputs:
  "artifacts_cleared (resetWorkflow False s) \<and> same_form_inputs s (resetWorkflow False s) \<and>
   artifacts_cleared (resetWorkflow True s) \<and> same_form_inputs s (resetWorkflow True s) \<and>
   artifacts_cleared (handleImageUpload f objectUrl s) \<and> same_form_inputs s (handleImageUpload f objectUrl s)"
  by (simp add: artifacts_cleared_def same_form_inputs_def resetWorkflow_def
      handleImageUpload_def Let_def)

text \<open>
  C1, as the code has it. A stage execution that fails (reading the image file throws,
  the provider call throws, or the response does not parse) ends in the stage that the
  handler's \<^verbatim>\<open>catch\<close> branch names: \<open>AdvertTypeSelected\<close>, \<open>StylesGenerated\<close>,
  \<open>IdeasGenerated\<close>, \<open>ReviewingConcepts\<close> and \<open>SelectingHooksAndCtas\<close> for the
  five stage handlers (the stage in which the user interface offers the handler,
  except that ideas can also be requested again from \<open>IdeasGenerated\<close>); a failed
  enhancement of the styling notes leaves the stage alone.

  The error cell of a failed stage handler holds \<^verbatim>\<open>An error occurred: \<close> followed by
  the message of the thrown value when that is an \<^verbatim>\<open>Error\<close>, and
  \<^verbatim>\<open>An unknown error occurred.\<close> when it is not. For a response that does not parse
  the message is the stage's \<^verbatim>\<open>The AI returned an invalid response for ...\<close>. After
  a failed enhancement the cell holds \<^verbatim>\<open>Failed to enhance styling: \<close> followed by
  the message, or \<^verbatim>\<open>An unknown error occurred during enhancement.\<close>

  Every other cell is as before the execution, with these exceptions, written before
  the provider is called: the idea stage empties \<open>conceptIdeas\<close>, the full-concept
  stage empties \<open>adConcepts\<close>, and the hook stage and the terminal stage store the
  concepts they were started with in \<open>adConcepts\<close>.
\<close>

theorem failed_stage_goes_to_fixed_stage:
  "(imageFile s \<noteq> None \<longrightarrow> advertType s = Some t \<longrightarrow>
      await_then imagePart (\<lambda>part. generateAdvertStyles part t r1) = Inl e \<longrightarrow>
      handleGenerateStyles imagePart r1 s =
        s\<lparr> stage := AdvertTypeSelected, error := Some (error_text e) \<rparr>) \<and>
   (imageFile s \<noteq> None \<longrightarrow> selectedStyle s = Some st \<longrightarrow> advertType s = Some t \<longrightarrow>
      await_then imagePart (\<lambda>part.
        generateConceptIdeas part \<lparr> url = Some (ctaUrl s), whatsapp = Some (ctaWhatsApp s) \<rparr>
          (brandGuidelines s) (userConcept s) st t r2) = Inl e \<longrightarrow>
      handleGenerateIdeas imagePart r2 s =
        Value (s\<lparr> stage := StylesGenerated, error := Some (error_text e),
                  conceptIdeas := Arr [] \<rparr>)) \<and>
   (imageFile s \<noteq> None \<longrightarrow> advertType s = Some t \<longrightarrow> length ideas = 2 \<longrightarrow>
      await_then imagePart (\<lambda>part.
        case selectedStyle s of
          None \<Rightarrow> Inl (cannot_read ''null'' ''title'')
        | Some st \<Rightarrow>
            generateFullConcepts part \<lparr> url = Some (ctaUrl s), whatsapp = Some (ctaWhatsApp s) \<rparr>
              (brandGuidelines s) (userConcept s) ideas t st r3) = Inl e \<longrightarrow>
      handleGenerateFullConcepts ideas imagePart r3 s =
        s\<lparr> stage := IdeasGenerated, error := Some (error_text e), adConcepts := [] \<rparr>) \<and>
   (imageFile s \<noteq> None \<longrightarrow> editableConcepts s \<noteq> [] \<longrightarrow>
      await_then imagePart (\<lambda>part.
        generateHooksAndCtas part (editableConcepts s)
          \<lparr> url = Some (ctaUrl s), whatsapp = Some (ctaWhatsApp s) \<rparr> (copyLanguage s) r4) = Inl e \<longrightarrow>
      handleGenerateHooksAndCtasForSelection imagePart r4 s =
        s\<lparr> stage := ReviewingConcepts, error := Some (error_text e),
           adConcepts := editableConcepts s \<rparr>) \<and>
   (imageFile s \<noteq> None \<longrightarrow> advertType s = Some t \<longrightarrow> cs \<noteq> [] \<longrightarrow>
      await_then imagePart (\<lambda>part.
        case t of Still \<Rightarrow> generateImagePrompts part cs (priceTag s) r5
                | Video \<Rightarrow> generateVideoScripts part cs r5) = Inl e \<longrightarrow>
      handleFinalizeAndGenerateOutputs cs imagePart r5 s =
        s\<lparr> stage := SelectingHooksAndCtas, error := Some (error_text e), adConcepts := cs \<rparr>) \<and>
   (element (editableConcepts s) (reviewIndex s) \<noteq> None \<longrightarrow>
      handleEnhanceStyling (Inl e) s =
        Value (s\<lparr> error := Some (enhance_error_text e), isEnhancingStyling := False \<rparr>)) \<and>
   (imageFile s \<noteq> None \<longrightarrow> advertType s \<noteq> None \<longrightarrow>
      error (handleGenerateStyles (Inr part) NotJson s) =
        Some ''An error occurred: The AI returned an invalid response for advert styles.'') \<and>
   (imageFile s \<noteq> None \<longrightarrow> editableConcepts s \<noteq> [] \<longrightarrow>
      generateHooksAndCtas_prompt (editableConcepts s)
        \<lparr> url = Some (ctaUrl s), whatsapp = Some (ctaWhatsApp s) \<rparr> (copyLanguage s) = Inr p \<longrightarrow>
      error (handleGenerateHooksAndCtasForSelection (Inr part) NotJson s) =
        Some ''An error occurred: The AI returned an invalid response for hooks and CTAs.'') \<and>
   (imageFile s \<noteq> None \<longrightarrow> selectedStyle s \<noteq> None \<longrightarrow> advertType s \<noteq> None \<longrightarrow>
      handleGenerateIdeas (Inr part) NotJson s =
        Value (s\<lparr> stage := StylesGenerated,
                 error := Some ''An error occurred: The AI returned an invalid response for concept ideas.'',
                 conceptIdeas := Arr [] \<rparr>)) \<and>
   (imageFile s \<noteq> None \<longrightarrow> selectedStyle s \<noteq> None \<longrightarrow> advertType s \<noteq> None \<longrightarrow>
      length ideas = 2 \<longrightarrow>
      error (handleGenerateFullConcepts ideas (Inr part) NotJson s) =
        Some ''An error occurred: The AI returned an invalid response for full concepts.'') \<and>
   (imageFile s \<noteq> None \<longrightarrow> advertType s = Some Still \<longrightarrow> cs \<noteq> [] \<longrightarrow>
      generateImagePrompts_interpolations cs = Inr texts \<longrightarrow>
      error (handleFinalizeAndGenerateOutputs cs (Inr part) NotJson s) =
        Some ''An error occurred: The AI returned an invalid response for image prompts.'') \<and>
   (imageFile s \<noteq> None \<longrightarrow> advertType s = Some Video \<longrightarrow> cs \<noteq> [] \<longrightarrow>
      error (handleFinalizeAndGenerateOutputs cs (Inr part) NotJson s) =
        Some ''An error occurred: The AI returned an invalid response for video scripts.'') \<and>
   error_text (ErrorObj message) = ''An error occurred: '' @ message \<and>
   error_text NotAnError = ''An unknown error occurred.'' \<and>
   enhance_error_text (ErrorObj message) = ''Failed to enhance styling: '' @ message \<and>
   enhance_error_text NotAnError = ''An unknown error occurred during enhancement.''"
proof (intro conjI impI)
  assume "imageFile s \<noteq> None" "advertType s = Some t"
    "await_then imagePart (\<lambda>part. generateAdvertStyles part t r1) = Inl e"
  then show "handleGenerateStyles imagePart r1 s =
      s\<lparr> stage := AdvertTypeSelected, error := Some (error_text e) \<rparr>"
    by (auto simp: handleGenerateStyles_def Let_def)
next
  assume "imageFile s \<noteq> None" "selectedStyle s = Some st" "advertType s = Some t"
    "await_then imagePart (\<lambda>part.
        generateConceptIdeas part \<lparr> url = Some (ctaUrl s), whatsapp = Some (ctaWhatsApp s) \<rparr>
          (brandGuidelines s) (userConcept s) st t r2) = Inl e"
  then show "handleGenerateIdeas imagePart r2 s =
      Value (s\<lparr> stage := StylesGenerated, error := Some (error_text e),
                conceptIdeas := Arr [] \<rparr>)"
    by (auto simp: handleGenerateIdeas_def Let_def)
next
  assume "imageFile s \<noteq> None" "advertType s = Some t" "length ideas = 2"
    "await_then imagePart (\<lambda>part.
        case selectedStyle s of
          None \<Rightarrow> Inl (cannot_read ''null'' ''title'')
        | Some st \<Rightarrow>
            generateFullConcepts part \<lparr> url = Some (ctaUrl s), whatsapp = Some (ctaWhatsApp s) \<rparr>
              (brandGuidelines s) (userConcept s) ideas t st r3) = Inl e"
  then show "handleGenerateFullConcepts ideas imagePart r3 s =
      s\<lparr> stage := IdeasGenerated, error := Some (error_text e), adConcepts := [] \<rparr>"
    by (auto simp: handleGenerateFullConcepts_def Let_def)
next
  assume "imageFile s \<noteq> None" "editableConcepts s \<noteq> []"
    "await_then imagePart (\<lambda>part.
        generateHooksAndCtas part (editableConcepts s)
          \<lparr> url = Some (ctaUrl s), whatsapp = Some (ctaWhatsApp s) \<rparr> (copyLanguage s) r4) = Inl e"
  then show "handleGenerateHooksAndCtasForSelection imagePart r4 s =
      s\<lparr> stage := ReviewingConcepts, error := Some (error_text e),
         adConcepts := editableConcepts s \<rparr>"
    by (auto simp: handleGenerateHooksAndCtasForSelection_def Let_def)
next
  assume "imageFile s \<noteq> None" "advertType s = Some t" "cs \<noteq> []"
    "await_then imagePart (\<lambda>part.
        case t of Still \<Rightarrow> generateImagePrompts part cs (priceTag s) r5
                | Video \<Rightarrow> generateVideoScripts part cs r5) = Inl e"
  then show "handleFinalizeAndGenerateOutputs cs imagePart r5 s =
      s\<lparr> stage := SelectingHooksAndCtas, error := Some (error_text e), adConcepts := cs \<rparr>"
    by (cases t) (auto simp: handleFinalizeAndGenerateOutputs_def Let_def)
next
  assume "element (editableConcepts s) (reviewIndex s) \<noteq> None"
  then show "handleEnhanceStyling (Inl e) s =
      Value (s\<lparr> error := Some (enhance_error_text e), isEnhancingStyling := False \<rparr>)"
    by (auto simp: handleEnhanceStyling_def enhanceStylingNotes_def Let_def)
next
  assume "imageFile s \<noteq> None" "advertType s \<noteq> None"
  then show "error (handleGenerateStyles (Inr part) NotJson s) =
      Some ''An error occurred: The AI returned an invalid response for advert styles.''"
    by (auto simp: handleGenerateStyles_def generateAdvertStyles_def await_then_def
        error_text_def Let_def)
next
  assume "imageFile s \<noteq> None" "editableConcepts s \<noteq> []"
    "generateHooksAndCtas_prompt (editableConcepts s)
        \<lparr> url = Some (ctaUrl s), whatsapp = Some (ctaWhatsApp s) \<rparr> (copyLanguage s) = Inr p"
  then show "error (handleGenerateHooksAndCtasForSelection (Inr part) NotJson s) =
      Some ''An error occurred: The AI returned an invalid response for hooks and CTAs.''"
    by (auto simp: handleGenerateHooksAndCtasForSelection_def generateHooksAndCtas_def
        await_then_def error_text_def Let_def)
next
  assume "imageFile s \<noteq> None" "selectedStyle s \<noteq> None" "advertType s \<noteq> None"
  then show "handleGenerateIdeas (Inr part) NotJson s =
      Value (s\<lparr> stage := StylesGenerated,
               error := Some ''An error occurred: The AI returned an invalid response for concept ideas.'',
               conceptIdeas := Arr [] \<rparr>)"
    by (auto simp: handleGenerateIdeas_def generateConceptIdeas_def await_then_def
        error_text_def Let_def)
next
  assume "imageFile s \<noteq> None" "selectedStyle s \<noteq> None" "advertType s \<noteq> None"
    and "length ideas = 2"
  then show "error (handleGenerateFullConcepts ideas (Inr part) NotJson s) =
      Some ''An error occurred: The AI returned an invalid response for full concepts.''"
    by (auto simp: handleGenerateFullConcepts_def full_concepts_not_json await_then_def
        error_text_def Let_def)
next
  assume "imageFile s \<noteq> None" "advertType s = Some Still" "cs \<noteq> []"
    and "generateImagePrompts_interpolations cs = Inr texts"
  then show "error (handleFinalizeAndGenerateOutputs cs (Inr part) NotJson s) =
      Some ''An error occurred: The AI returned an invalid response for image prompts.''"
    by (auto simp: handleFinalizeAndGenerateOutputs_def generateImagePrompts_def await_then_def
        error_text_def Let_def)
next
  assume "imageFile s \<noteq> None" "advertType s = Some Video" "cs \<noteq> []"
  then show "error (handleFinalizeAndGenerateOutputs cs (Inr part) NotJson s) =
      Some ''An error occurred: The AI returned an invalid response for video scripts.''"
    by (auto simp: handleFinalizeAndGenerateOutputs_def generateVideoScripts_def await_then_def
        error_text_def Let_def)
qed (simp_all add: error_text_def enhance_error_text_def)

theorem failed_stage_goes_to_fixed_stage_witness:
  "handleGenerateStyles (Inr sample_part) (Rejects NotAnError) sample_state =
     sample_state\<lparr> stage := AdvertTypeSelected, error := Some ''An unknown error occurred.'' \<rparr> \<and>
   handleGenerateIdeas (Inr sample_part) NotJson sample_state =
     Value (sample_state\<lparr> stage := StylesGenerated,
       error := Some ''An error occurred: The AI returned an invalid response for concept ideas.'',
       conceptIdeas := Arr [] \<rparr>) \<and>
   handleGenerateFullConcepts two_ideas (Inl (ErrorObj ''The file could not be read'')) (Parsed two_concepts)
       sample_state =
     sample_state\<lparr> stage := IdeasGenerated,
       error := Some ''An error occurred: The file could not be read'', adConcepts := [] \<rparr> \<and>
   handleGenerateHooksAndCtasForSelection (Inr sample_part) NotJson review_state =
     review_state\<lparr> stage := ReviewingConcepts,
       error := Some ''An error occurred: The AI returned an invalid response for hooks and CTAs.'',
       adConcepts := editableConcepts review_state \<rparr> \<and>
   handleGenerateHooksAndCtasForSelection (Inr sample_part) (Parsed [])
       (review_state\<lparr> editableConcepts := one_concept \<rparr>) =
     review_state\<lparr> editableConcepts := one_concept, stage := ReviewingConcepts,
       error := Some ''An error occurred: Cannot read properties of undefined (reading 'optionName')'',
       adConcepts := one_concept \<rparr> \<and>
   handleFinalizeAndGenerateOutputs two_concepts (Inr sample_part) (Rejects (ErrorObj ''503''))
       review_state =
     review_state\<lparr> stage := SelectingHooksAndCtas, error := Some ''An error occurred: 503'',
       adConcepts := two_concepts \<rparr> \<and>
   handleEnhanceStyling (Inl (ErrorObj ''503'')) review_state =
     Value (review_state\<lparr> error := Some ''Failed to enhance styling: 503'',
       isEnhancingStyling := False \<rparr>) \<and>
   handleEnhanceStyling (Inl NotAnError) review_state =
     Value (review_state\<lparr> error := Some ''An unknown error occurred during enhancement.'',
       isEnhancingStyling := False \<rparr>) \<and>
   error (handleGenerateStyles (Inr sample_part) NotJson sample_state) =
     Some ''An error occurred: The AI returned an invalid response for advert styles.'' \<and>
   error (handleGenerateHooksAndCtasForSelection (Inr sample_part) NotJson review_state) =
     Some ''An error occurred: The AI returned an invalid response for hooks and CTAs.'' \<and>
   error (handleGenerateFullConcepts two_ideas (Inr sample_part) NotJson sample_state) =
     Some ''An error occurred: The AI returned an invalid response for full concepts.'' \<and>
   error (handleFinalizeAndGenerateOutputs two_concepts (Inr sample_part) NotJson review_state) =
     Some ''An error occurred: The AI returned an invalid response for image prompts.'' \<and>
   error (handleFinalizeAndGenerateOutputs two_concepts (Inr sample_part) NotJson
       (review_state\<lparr> advertType := Some Video \<rparr>)) =
     Some ''An error occurred: The AI returned an invalid response for video scripts.''"
proof -
  note sample = review_state_def sample_state_def initial_state_def
  obtain p where p: "generateHooksAndCtas_prompt (editableConcepts review_state)
      \<lparr> url = Some (ctaUrl review_state), whatsapp = Some (ctaWhatsApp review_state) \<rparr>
      (copyLanguage review_state) = Inr p"
    by (simp add: generateHooksAndCtas_prompt_def interpolate_def element_def own_def
        two_concepts_def sample)
  have texts: "generateImagePrompts_interpolations two_concepts =
      Inr [''Run early'', ''Own the night'', ''Learn More'', ''Learn More'']"
    by (rule sample_image_texts)
  have missing: "generateHooksAndCtas_prompt one_concept cta lang =
      Inl (cannot_read ''undefined'' ''optionName'')" for cta lang
    by (simp add: generateHooksAndCtas_prompt_def interpolate_def element_def own_def
        one_concept_def)
  have "handleGenerateStyles (Inr sample_part) (Rejects NotAnError) sample_state =
     sample_state\<lparr> stage := AdvertTypeSelected, error := Some ''An unknown error occurred.'' \<rparr>"
    using failed_stage_goes_to_fixed_stage
      [where s = sample_state and t = Still and imagePart = "Inr sample_part"
        and ?r1.0 = "Rejects NotAnError" and e = NotAnError]
    by (simp add: sample generateAdvertStyles_def await_then_def error_text_def)
  moreover have "handleGenerateIdeas (Inr sample_part) NotJson sample_state =
     Value (sample_state\<lparr> stage := StylesGenerated,
       error := Some ''An error occurred: The AI returned an invalid response for concept ideas.'',
       conceptIdeas := Arr [] \<rparr>)"
    using failed_stage_goes_to_fixed_stage
      [where s = sample_state and t = Still and imagePart = "Inr sample_part"
        and ?r2.0 = NotJson and st = sample_style
        and e = "ErrorObj ''The AI returned an invalid response for concept ideas.''"]
    by (simp add: sample generateConceptIdeas_def await_then_def error_text_def sample_style_def)
  moreover have "handleGenerateFullConcepts two_ideas (Inl (ErrorObj ''The file could not be read''))
       (Parsed two_concepts) sample_state =
     sample_state\<lparr> stage := IdeasGenerated,
       error := Some ''An error occurred: The file could not be read'', adConcepts := [] \<rparr>"
    using failed_stage_goes_to_fixed_stage
      [where s = sample_state and t = Still
        and imagePart = "Inl (ErrorObj ''The file could not be read'')"
        and ?r3.0 = "Parsed two_concepts" and ideas = two_ideas
        and e = "ErrorObj ''The file could not be read''"]
    by (simp add: sample await_then_def error_text_def two_ideas_def)
  moreover have "handleGenerateHooksAndCtasForSelection (Inr sample_part) NotJson review_state =
     review_state\<lparr> stage := ReviewingConcepts,
       error := Some ''An error occurred: The AI returned an invalid response for hooks and CTAs.'',
       adConcepts := editableConcepts review_state \<rparr>"
    using failed_stage_goes_to_fixed_stage
      [where s = review_state and imagePart = "Inr sample_part" and ?r4.0 = NotJson
        and e = "ErrorObj ''The AI returned an invalid response for hooks and CTAs.''"]
      p
    by (simp add: generateHooksAndCtas_def await_then_def error_text_def)
      (simp add: sample two_concepts_def)
  moreover have "handleGenerateHooksAndCtasForSelection (Inr sample_part) (Parsed [])
       (review_state\<lparr> editableConcepts := one_concept \<rparr>) =
     review_state\<lparr> editableConcepts := one_concept, stage := ReviewingConcepts,
       error := Some ''An error occurred: Cannot read properties of undefined (reading 'optionName')'',
       adConcepts := one_concept \<rparr>"
    using failed_stage_goes_to_fixed_stage
      [where s = "review_state\<lparr> editableConcepts := one_concept \<rparr>"
        and imagePart = "Inr sample_part" and ?r4.0 = "Parsed []"
        and e = "cannot_read ''undefined'' ''optionName''"]
      missing
    by (simp add: generateHooksAndCtas_def await_then_def)
      (simp add: sample one_concept_def error_text_def cannot_read_def quoted_def)
  moreover have "handleFinalizeAndGenerateOutputs two_concepts (Inr sample_part)
       (Rejects (ErrorObj ''503'')) review_state =
     review_state\<lparr> stage := SelectingHooksAndCtas, error := Some ''An error occurred: 503'',
       adConcepts := two_concepts \<rparr>"
    using failed_stage_goes_to_fixed_stage
      [where s = review_state and t = Still and imagePart = "Inr sample_part"
        and ?r5.0 = "Rejects (ErrorObj ''503'')" and cs = two_concepts and e = "ErrorObj ''503''"]
      texts
    by (simp add: generateImagePrompts_def await_then_def error_text_def)
      (simp add: sample two_concepts_def)
  moreover have "handleEnhanceStyling (Inl (ErrorObj ''503'')) review_state =
     Value (review_state\<lparr> error := Some ''Failed to enhance styling: 503'',
       isEnhancingStyling := False \<rparr>)"
    using failed_stage_goes_to_fixed_stage [where s = review_state and e = "ErrorObj ''503''"]
    by (simp add: sample element_def two_concepts_def enhance_error_text_def)
  moreover have "handleEnhanceStyling (Inl NotAnError) review_state =
     Value (review_state\<lparr> error := Some ''An unknown error occurred during enhancement.'',
       isEnhancingStyling := False \<rparr>)"
    using failed_stage_goes_to_fixed_stage [where s = review_state and e = NotAnError]
    by (simp add: sample element_def two_concepts_def enhance_error_text_def)
  moreover have "error (handleGenerateStyles (Inr sample_part) NotJson sample_state) =
     Some ''An error occurred: The AI returned an invalid response for advert styles.''"
    using failed_stage_goes_to_fixed_stage [where s = sample_state and part = sample_part]
    by (simp add: sample)
  moreover have "error (handleGenerateHooksAndCtasForSelection (Inr sample_part) NotJson review_state) =
     Some ''An error occurred: The AI returned an invalid response for hooks and CTAs.''"
    using failed_stage_goes_to_fixed_stage [where s = review_state and part = sample_part and p = p] p
    by (simp add: sample two_concepts_def)
  moreover have "error (handleGenerateFullConcepts two_ideas (Inr sample_part) NotJson sample_state) =
     Some ''An error occurred: The AI returned an invalid response for full concepts.''"
    using failed_stage_goes_to_fixed_stage
      [where s = sample_state and part = sample_part and ideas = two_ideas]
    by (simp add: sample two_ideas_def)
  moreover have "error (handleFinalizeAndGenerateOutputs two_concepts (Inr sample_part) NotJson review_state) =
     Some ''An error occurred: The AI returned an invalid response for image prompts.''"
    using failed_stage_goes_to_fixed_stage
      [where s = review_state and part = sample_part and cs = two_concepts
        and texts = "[''Run early'', ''Own the night'', ''Learn More'', ''Learn More'']"]
      texts
    by (simp add: sample) (simp add: two_concepts_def)
  moreover have "error (handleFinalizeAndGenerateOutputs two_concepts (Inr sample_part) NotJson
       (review_state\<lparr> advertType := Some Video \<rparr>)) =
     Some ''An error occurred: The AI returned an invalid response for video scripts.''"
    using failed_stage_goes_to_fixed_stage
      [where s = "review_state\<lparr> advertType := Some Video \<rparr>" and part = sample_part
        and cs = two_concepts]
    by (simp add: sample) (simp add: two_concepts_def)
  ultimately show ?thesis
    by (simp only: simp_thms)
qed

text \<open>
  C1 as stated fails. After an edit, a failed run of the hook stage ends in
  \<open>ReviewingConcepts\<close> with the edits locked into \<open>adConcepts\<close>. And the idea
  stage, which the user interface also offers in \<open>IdeasGenerated\<close>, ends a failed run
  from there in \<open>StylesGenerated\<close>, with the ideas of the earlier run gone.
\<close>

theorem failed_hooks_stage_commits_edits:
  "stage review_state = ReviewingConcepts \<and>
   error (handleGenerateHooksAndCtasForSelection (Inr sample_part) NotJson review_state) =
     Some ''An error occurred: The AI returned an invalid response for hooks and CTAs.'' \<and>
   stage (handleGenerateHooksAndCtasForSelection (Inr sample_part) NotJson review_state) =
     ReviewingConcepts \<and>
   adConcepts (handleGenerateHooksAndCtasForSelection (Inr sample_part) NotJson review_state) \<noteq>
     adConcepts review_state \<and>
   stage sample_state = IdeasGenerated \<and>
   conceptIdeas sample_state \<noteq> Arr [] \<and>
   handleGenerateIdeas (Inr sample_part) NotJson sample_state =
     Value (sample_state\<lparr> stage := StylesGenerated,
       error := Some ''An error occurred: The AI returned an invalid response for concept ideas.'',
       conceptIdeas := Arr [] \<rparr>)"
  by (simp add: handleGenerateHooksAndCtasForSelection_def generateHooksAndCtas_def
      generateHooksAndCtas_prompt_def interpolate_def element_def own_def await_then_def
      handleGenerateIdeas_def generateConceptIdeas_def
      review_state_def sample_state_def initial_state_def two_concepts_def error_text_def Let_def)

text \<open>
  C2, as the code has it. In each of the six stage functions that parse their response
  (styles, ideas, full concepts, hooks and CTAs, image prompts, video scripts), a
  response whose trimmed text is not JSON is rejected with the stage's
  \<^verbatim>\<open>The AI returned an invalid response for ...\<close> error, and a response that parses
  is returned as it was parsed: the stage functions check neither the required fields
  nor the lengths of the arrays (the schema goes to the provider with the request and
  is not used on the response). The enhancement of the styling notes parses nothing:
  it returns the trimmed text of the response.

  The handlers store what their stage function returned as it is. The one check that
  a handler makes on that value is the one of the idea handler,
  \<^verbatim>\<open>ideas && ideas.length > 0\<close>. A value that fails it (\<^verbatim>\<open>null\<close>, a boolean, a
  number, an empty string, an empty array, an object with no property \<^verbatim>\<open>length\<close>)
  is turned down with a message of the handler's own, not with the invalid-response
  error, and the stage goes back to \<open>StylesGenerated\<close>. A value that passes it (an
  array or a string that is not empty) is stored as it is, whatever its elements
  are.
\<close>

theorem parsed_response_is_returned_unchecked:
  "generateAdvertStyles part t NotJson =
     Inl (ErrorObj ''The AI returned an invalid response for advert styles.'') \<and>
   generateAdvertStyles part t (Parsed styles) = Inr styles \<and>
   generateConceptIdeas part cta brand draft st t NotJson =
     Inl (ErrorObj ''The AI returned an invalid response for concept ideas.'') \<and>
   generateConceptIdeas part cta brand draft st t (Parsed ideas) = Inr ideas \<and>
   (2 \<le> length selectedIdeas \<longrightarrow>
      generateFullConcepts part cta brand draft selectedIdeas t st NotJson =
        Inl (ErrorObj ''The AI returned an invalid response for full concepts.'') \<and>
      generateFullConcepts part cta brand draft selectedIdeas t st (Parsed concepts) = Inr concepts) \<and>
   (generateHooksAndCtas_prompt cs cta lang = Inr p \<longrightarrow>
      generateHooksAndCtas part cs cta lang NotJson =
        Inl (ErrorObj ''The AI returned an invalid response for hooks and CTAs.'') \<and>
      generateHooksAndCtas part cs cta lang (Parsed hooks) = Inr hooks) \<and>
   (generateImagePrompts_interpolations cs = Inr texts \<longrightarrow>
      generateImagePrompts part cs price NotJson =
        Inl (ErrorObj ''The AI returned an invalid response for image prompts.'') \<and>
      generateImagePrompts part cs price (Parsed prompts) = Inr prompts) \<and>
   generateVideoScripts part cs NotJson =
     Inl (ErrorObj ''The AI returned an invalid response for video scripts.'') \<and>
   generateVideoScripts part cs (Parsed scripts) = Inr scripts \<and>
   enhanceStylingNotes concept (Inr notes) = Inr notes \<and>
   (imageFile s \<noteq> None \<longrightarrow> selectedStyle s \<noteq> None \<longrightarrow> advertType s \<noteq> None \<longrightarrow>
      (has_items ideas = Some False \<longrightarrow>
         handleGenerateIdeas (Inr part) (Parsed ideas) s =
           Value (s\<lparr> stage := StylesGenerated,
                    error := Some ''The AI couldn't generate any ideas for this combination. Please try adjusting your inputs.'',
                    conceptIdeas := Arr [] \<rparr>)) \<and>
      (has_items ideas = Some True \<longrightarrow>
         handleGenerateIdeas (Inr part) (Parsed ideas) s =
           Value (s\<lparr> stage := IdeasGenerated, error := None, conceptIdeas := ideas \<rparr>))) \<and>
   (imageFile s \<noteq> None \<longrightarrow> advertType s \<noteq> None \<longrightarrow>
      handleGenerateStyles (Inr part) (Parsed styles) s =
        s\<lparr> stage := StylesGenerated, error := None, advertStyles := styles \<rparr>) \<and>
   (imageFile s \<noteq> None \<longrightarrow> selectedStyle s \<noteq> None \<longrightarrow> advertType s \<noteq> None \<longrightarrow>
      length selectedIdeas = 2 \<longrightarrow>
      handleGenerateFullConcepts selectedIdeas (Inr part) (Parsed concepts) s =
        s\<lparr> stage := ReviewingConcepts, error := None, adConcepts := concepts,
           editableConcepts := map copy_obj concepts, reviewIndex := 0 \<rparr>) \<and>
   (imageFile s \<noteq> None \<longrightarrow> editableConcepts s \<noteq> [] \<longrightarrow>
      generateHooksAndCtas_prompt (editableConcepts s)
        \<lparr> url = Some (ctaUrl s), whatsapp = Some (ctaWhatsApp s) \<rparr> (copyLanguage s) = Inr q \<longrightarrow>
      handleGenerateHooksAndCtasForSelection (Inr part) (Parsed hooks) s =
        s\<lparr> stage := SelectingHooksAndCtas, error := None, adConcepts := editableConcepts s,
           hooksAndCtasForSelection := Some hooks \<rparr>) \<and>
   (imageFile s \<noteq> None \<longrightarrow> advertType s = Some Still \<longrightarrow> cs \<noteq> [] \<longrightarrow>
      generateImagePrompts_interpolations cs = Inr texts \<longrightarrow>
      handleFinalizeAndGenerateOutputs cs (Inr part) (Parsed prompts) s =
        s\<lparr> stage := FinalOutputsGenerated, error := None, adConcepts := cs,
           imageGenPrompts := Some prompts \<rparr>) \<and>
   (imageFile s \<noteq> None \<longrightarrow> advertType s = Some Video \<longrightarrow> cs \<noteq> [] \<longrightarrow>
      handleFinalizeAndGenerateOutputs cs (Inr part) (Parsed scripts) s =
        s\<lparr> stage := FinalOutputsGenerated, error := None, adConcepts := cs,
           videoScripts := Some scripts \<rparr>) \<and>
   has_items Null = Some False \<and>
   has_items (Bool b) = Some False \<and>
   has_items (Num r) = Some False \<and>
   has_items (Str []) = Some False \<and>
   has_items (Arr []) = Some False \<and>
   (map_of kvs ''length'' = None \<longrightarrow> has_items (Obj kvs) = Some False) \<and>
   has_items (Arr (x # xs)) = Some True \<and>
   has_items (Str (c # text)) = Some True"
proof (intro conjI impI)
  assume "imageFile s \<noteq> None" "selectedStyle s \<noteq> None" "advertType s \<noteq> None"
    and "has_items ideas = Some False"
  then show "handleGenerateIdeas (Inr part) (Parsed ideas) s =
      Value (s\<lparr> stage := StylesGenerated,
               error := Some ''The AI couldn't generate any ideas for this combination. Please try adjusting your inputs.'',
               conceptIdeas := Arr [] \<rparr>)"
    by (auto simp: handleGenerateIdeas_def generateConceptIdeas_def await_then_def Let_def)
next
  assume "imageFile s \<noteq> None" "selectedStyle s \<noteq> None" "advertType s \<noteq> None"
    and "has_items ideas = Some True"
  then show "handleGenerateIdeas (Inr part) (Parsed ideas) s =
      Value (s\<lparr> stage := IdeasGenerated, error := None, conceptIdeas := ideas \<rparr>)"
    by (auto simp: handleGenerateIdeas_def generateConceptIdeas_def await_then_def Let_def)
next
  assume "2 \<le> length selectedIdeas"
  then show "generateFullConcepts part cta brand draft selectedIdeas t st NotJson =
        Inl (ErrorObj ''The AI returned an invalid response for full concepts.'')"
    and "generateFullConcepts part cta brand draft selectedIdeas t st (Parsed concepts) = Inr concepts"
    by (simp_all add: full_concepts_not_json full_concepts_parsed)
next
  assume "generateHooksAndCtas_prompt cs cta lang = Inr p"
  then show "generateHooksAndCtas part cs cta lang NotJson =
        Inl (ErrorObj ''The AI returned an invalid response for hooks and CTAs.'')"
    and "generateHooksAndCtas part cs cta lang (Parsed hooks) = Inr hooks"
    by (simp_all add: generateHooksAndCtas_def)
next
  assume "generateImagePrompts_interpolations cs = Inr texts"
  then show "generateImagePrompts part cs price NotJson =
        Inl (ErrorObj ''The AI returned an invalid response for image prompts.'')"
    and "generateImagePrompts part cs price (Parsed prompts) = Inr prompts"
    by (simp_all add: generateImagePrompts_def)
next
  assume "map_of kvs ''length'' = None"
  then show "has_items (Obj kvs) = Some False"
    by (simp add: has_items_def)
next
  assume "imageFile s \<noteq> None" "advertType s \<noteq> None"
  then show "handleGenerateStyles (Inr part) (Parsed styles) s =
      s\<lparr> stage := StylesGenerated, error := None, advertStyles := styles \<rparr>"
    by (auto simp: handleGenerateStyles_def generateAdvertStyles_def await_then_def Let_def)
next
  assume "imageFile s \<noteq> None" "selectedStyle s \<noteq> None" "advertType s \<noteq> None"
    and "length selectedIdeas = 2"
  then show "handleGenerateFullConcepts selectedIdeas (Inr part) (Parsed concepts) s =
      s\<lparr> stage := ReviewingConcepts, error := None, adConcepts := concepts,
         editableConcepts := map copy_obj concepts, reviewIndex := 0 \<rparr>"
    by (auto simp: handleGenerateFullConcepts_def full_concepts_parsed await_then_def Let_def)
next
  assume "imageFile s \<noteq> None" "editableConcepts s \<noteq> []"
    and "generateHooksAndCtas_prompt (editableConcepts s)
        \<lparr> url = Some (ctaUrl s), whatsapp = Some (ctaWhatsApp s) \<rparr> (copyLanguage s) = Inr q"
  then show "handleGenerateHooksAndCtasForSelection (Inr part) (Parsed hooks) s =
      s\<lparr> stage := SelectingHooksAndCtas, error := None, adConcepts := editableConcepts s,
         hooksAndCtasForSelection := Some hooks \<rparr>"
    by (auto simp: handleGenerateHooksAndCtasForSelection_def generateHooksAndCtas_def
        await_then_def Let_def)
next
  assume "imageFile s \<noteq> None" "advertType s = Some Still" "cs \<noteq> []"
    and "generateImagePrompts_interpolations cs = Inr texts"
  then show "handleFinalizeAndGenerateOutputs cs (Inr part) (Parsed prompts) s =
      s\<lparr> stage := FinalOutputsGenerated, error := None, adConcepts := cs,
         imageGenPrompts := Some prompts \<rparr>"
    by (auto simp: handleFinalizeAndGenerateOutputs_def generateImagePrompts_def
        await_then_def Let_def)
next
  assume "imageFile s \<noteq> None" "advertType s = Some Video" "cs \<noteq> []"
  then show "handleFinalizeAndGenerateOutputs cs (Inr part) (Parsed scripts) s =
      s\<lparr> stage := FinalOutputsGenerated, error := None, adConcepts := cs,
         videoScripts := Some scripts \<rparr>"
    by (auto simp: handleFinalizeAndGenerateOutputs_def generateVideoScripts_def
        await_then_def Let_def)
qed (simp_all add: generateAdvertStyles_def generateConceptIdeas_def generateVideoScripts_def
    enhanceStylingNotes_def has_items_def Let_def)

theorem parsed_response_is_returned_unchecked_witness:
  "generateFullConcepts sample_part \<lparr> url = None, whatsapp = None \<rparr> [] [] two_ideas Still
     sample_style NotJson =
     Inl (ErrorObj ''The AI returned an invalid response for full concepts.'') \<and>
   generateFullConcepts sample_part \<lparr> url = None, whatsapp = None \<rparr> [] [] two_ideas Still
     sample_style (Parsed two_concepts) = Inr two_concepts \<and>
   generateHooksAndCtas sample_part two_concepts \<lparr> url = None, whatsapp = None \<rparr> ''English'' NotJson =
     Inl (ErrorObj ''The AI returned an invalid response for hooks and CTAs.'') \<and>
   generateHooksAndCtas sample_part two_concepts \<lparr> url = None, whatsapp = None \<rparr> ''English''
     (Parsed [(''hooks'', Arr []), (''ctas'', Arr [])]) = Inr [(''hooks'', Arr []), (''ctas'', Arr [])] \<and>
   generateImagePrompts sample_part two_concepts [] NotJson =
     Inl (ErrorObj ''The AI returned an invalid response for image prompts.'') \<and>
   generateImagePrompts sample_part two_concepts [] (Parsed []) = Inr [] \<and>
   handleGenerateIdeas (Inr sample_part) (Parsed (Arr [])) sample_state =
     Value (sample_state\<lparr> stage := StylesGenerated,
       error := Some ''The AI couldn't generate any ideas for this combination. Please try adjusting your inputs.'',
       conceptIdeas := Arr [] \<rparr>) \<and>
   handleGenerateIdeas (Inr sample_part) (Parsed (Obj [(''title'', Str ''Sunrise run'')])) sample_state =
     Value (sample_state\<lparr> stage := StylesGenerated,
       error := Some ''The AI couldn't generate any ideas for this combination. Please try adjusting your inputs.'',
       conceptIdeas := Arr [] \<rparr>) \<and>
   handleGenerateIdeas (Inr sample_part) (Parsed (Arr [Obj [(''headline'', Num ''7'')]])) sample_state =
     Value (sample_state\<lparr> stage := IdeasGenerated, error := None,
       conceptIdeas := Arr [Obj [(''headline'', Num ''7'')]] \<rparr>) \<and>
   handleGenerateIdeas (Inr sample_part) (Parsed Null) sample_state =
     Value (sample_state\<lparr> stage := StylesGenerated,
       error := Some ''The AI couldn't generate any ideas for this combination. Please try adjusting your inputs.'',
       conceptIdeas := Arr [] \<rparr>) \<and>
   handleGenerateStyles (Inr sample_part) (Parsed [[(''title'', Str ''Bold Minimalism'')]]) sample_state =
     sample_state\<lparr> stage := StylesGenerated, error := None,
       advertStyles := [[(''title'', Str ''Bold Minimalism'')]] \<rparr> \<and>
   handleGenerateFullConcepts two_ideas (Inr sample_part) (Parsed two_concepts) sample_state =
     sample_state\<lparr> stage := ReviewingConcepts, error := None, adConcepts := two_concepts,
       editableConcepts := map copy_obj two_concepts, reviewIndex := 0 \<rparr>"
proof -
  obtain p where p: "generateHooksAndCtas_prompt two_concepts \<lparr> url = None, whatsapp = None \<rparr> ''English'' = Inr p"
    using sample_hooks_prompt_builds by blast
  have two: "2 \<le> length two_ideas"
    by (simp add: two_ideas_def)
  have state: "imageFile sample_state \<noteq> None" "selectedStyle sample_state \<noteq> None"
    "advertType sample_state \<noteq> None"
    by (simp_all add: sample_state_def initial_state_def)
  note inst = parsed_response_is_returned_unchecked
    [where part = sample_part and selectedIdeas = two_ideas and cs = two_concepts and p = p
      and cta = "\<lparr> url = None, whatsapp = None \<rparr>" and lang = "''English''"
      and texts = "[''Run early'', ''Own the night'', ''Learn More'', ''Learn More'']"
      and brand = "[]" and draft = "[]" and t = Still and st = sample_style
      and concepts = two_concepts and hooks = "[(''hooks'', Arr []), (''ctas'', Arr [])]"
      and price = "[]" and prompts = "[]" and s = sample_state]
  from inst [where ideas = "Arr []"] p two sample_image_texts state
  have "generateFullConcepts sample_part \<lparr> url = None, whatsapp = None \<rparr> [] [] two_ideas Still
     sample_style NotJson =
     Inl (ErrorObj ''The AI returned an invalid response for full concepts.'') \<and>
   generateFullConcepts sample_part \<lparr> url = None, whatsapp = None \<rparr> [] [] two_ideas Still
     sample_style (Parsed two_concepts) = Inr two_concepts \<and>
   generateHooksAndCtas sample_part two_concepts \<lparr> url = None, whatsapp = None \<rparr> ''English'' NotJson =
     Inl (ErrorObj ''The AI returned an invalid response for hooks and CTAs.'') \<and>
   generateHooksAndCtas sample_part two_concepts \<lparr> url = None, whatsapp = None \<rparr> ''English''
     (Parsed [(''hooks'', Arr []), (''ctas'', Arr [])]) = Inr [(''hooks'', Arr []), (''ctas'', Arr [])] \<and>
   generateImagePrompts sample_part two_concepts [] NotJson =
     Inl (ErrorObj ''The AI returned an invalid response for image prompts.'') \<and>
   generateImagePrompts sample_part two_concepts [] (Parsed []) = Inr [] \<and>
   handleGenerateIdeas (Inr sample_part) (Parsed (Arr [])) sample_state =
     Value (sample_state\<lparr> stage := StylesGenerated,
       error := Some ''The AI couldn't generate any ideas for this combination. Please try adjusting your inputs.'',
       conceptIdeas := Arr [] \<rparr>)"
    by simp
  moreover from inst [where ideas = "Obj [(''title'', Str ''Sunrise run'')]"
      and kvs = "[(''title'', Str ''Sunrise run'')]"] state
  have "handleGenerateIdeas (Inr sample_part) (Parsed (Obj [(''title'', Str ''Sunrise run'')])) sample_state =
     Value (sample_state\<lparr> stage := StylesGenerated,
       error := Some ''The AI couldn't generate any ideas for this combination. Please try adjusting your inputs.'',
       conceptIdeas := Arr [] \<rparr>)"
    by simp
  moreover from inst [where ideas = "Arr [Obj [(''headline'', Num ''7'')]]"
      and x = "Obj [(''headline'', Num ''7'')]" and xs = "[]"] state
  have "handleGenerateIdeas (Inr sample_part) (Parsed (Arr [Obj [(''headline'', Num ''7'')]])) sample_state =
     Value (sample_state\<lparr> stage := IdeasGenerated, error := None,
       conceptIdeas := Arr [Obj [(''headline'', Num ''7'')]] \<rparr>)"
    by simp
  moreover from inst [where ideas = Null] state
  have "handleGenerateIdeas (Inr sample_part) (Parsed Null) sample_state =
     Value (sample_state\<lparr> stage := StylesGenerated,
       error := Some ''The AI couldn't generate any ideas for this combination. Please try adjusting your inputs.'',
       conceptIdeas := Arr [] \<rparr>)"
    by simp
  moreover from inst [where styles = "[[(''title'', Str ''Bold Minimalism'')]]"] state
  have "handleGenerateStyles (Inr sample_part) (Parsed [[(''title'', Str ''Bold Minimalism'')]]) sample_state =
     sample_state\<lparr> stage := StylesGenerated, error := None,
       advertStyles := [[(''title'', Str ''Bold Minimalism'')]] \<rparr>"
    by simp
  moreover from inst state
  have "handleGenerateFullConcepts two_ideas (Inr sample_part) (Parsed two_concepts) sample_state =
     sample_state\<lparr> stage := ReviewingConcepts, error := None, adConcepts := two_concepts,
       editableConcepts := map copy_obj two_concepts, reviewIndex := 0 \<rparr>"
    by (simp add: two_ideas_def)
  ultimately show ?thesis
    by (simp only: simp_thms)
qed

text \<open>
  C2 as stated fails: a full-concept response with no concept at all, a hooks response
  with one hook and no \<^verbatim>\<open>ctas\<close> property, and a style without its \<^verbatim>\<open>summary\<close> are
  returned to the caller, which goes on to the next stage; and the idea handler takes
  a list whose one idea has neither a title nor a summary.
\<close>

theorem malformed_responses_are_accepted:
  "generateFullConcepts sample_part \<lparr> url = None, whatsapp = None \<rparr> [] [] two_ideas Still sample_style (Parsed []) =
     Inr [] \<and>
   generateHooksAndCtas sample_part two_concepts \<lparr> url = None, whatsapp = None \<rparr> ''English''
     (Parsed [(''hooks'', Arr [Str ''Only one hook''])]) = Inr [(''hooks'', Arr [Str ''Only one hook''])] \<and>
   generateAdvertStyles sample_part Still (Parsed [[(''title'', Str ''Bold Minimalism'')]]) =
     Inr [[(''title'', Str ''Bold Minimalism'')]] \<and>
   stage (handleGenerateFullConcepts two_ideas (Inr sample_part) (Parsed []) sample_state) = ReviewingConcepts \<and>
   error (handleGenerateFullConcepts two_ideas (Inr sample_part) (Parsed []) sample_state) = None \<and>
   handleGenerateIdeas (Inr sample_part) (Parsed (Arr [Obj []])) sample_state =
     Value (sample_state\<lparr> stage := IdeasGenerated, error := None, conceptIdeas := Arr [Obj []] \<rparr>)"
proof -
  obtain p where p: "generateHooksAndCtas_prompt two_concepts \<lparr> url = None, whatsapp = None \<rparr> ''English'' = Inr p"
    using sample_hooks_prompt_builds by blast
  have two: "2 \<le> length two_ideas" "length two_ideas = 2"
    by (simp_all add: two_ideas_def)
  show ?thesis
    using p two
    by (simp add: full_concepts_parsed generateHooksAndCtas_def generateAdvertStyles_def
        handleGenerateFullConcepts_def handleGenerateIdeas_def generateConceptIdeas_def
        has_items_def await_then_def sample_state_def initial_state_def Let_def)
qed

text \<open>
  C8. When the number of chosen ideas handed to the full-concept stage is not 2 (fewer,
  or more), the handler returns at its guard: it sets the error message and leaves
  every other cell, the stage among them, as it was. Neither the read of the image
  nor the provider's response enters the result: the handler returns before it awaits
  anything.
\<close>

theorem wrong_idea_count_is_rejected_before_the_call:
  "length selectedIdeas \<noteq> 2 \<Longrightarrow>
   handleGenerateFullConcepts selectedIdeas imagePart response s =
     s\<lparr> error := Some ''Something went wrong. Please start over.'' \<rparr>"
  by (simp add: handleGenerateFullConcepts_def split: option.splits)

theorem wrong_idea_count_is_rejected_before_the_call_witness:
  "handleGenerateFullConcepts [\<lparr> idea_title = ''Sunrise run'', idea_summary = ''A runner at dawn'' \<rparr>]
      (Inr sample_part) (Parsed two_concepts) sample_state =
     sample_state\<lparr> error := Some ''Something went wrong. Please start over.'' \<rparr> \<and>
   stage (handleGenerateFullConcepts [\<lparr> idea_title = ''Sunrise run'', idea_summary = ''A runner at dawn'' \<rparr>]
      (Inr sample_part) (Parsed two_concepts) sample_state) = IdeasGenerated"
  using wrong_idea_count_is_rejected_before_the_call
    [of "[\<lparr> idea_title = ''Sunrise run'', idea_summary = ''A runner at dawn'' \<rparr>]"
      "Inr sample_part" "Parsed two_concepts" sample_state]
  by (simp add: sample_state_def)

text \<open>
  C3, as the code has it. The code does not assemble a CTA text; it hands the two
  destinations to the provider. For each of the four presence combinations, the
  instruction texts of the full-concept stage and of the hook stage carry the URL and
  the WhatsApp number as they were entered, and \<^verbatim>\<open>Not provided\<close> for one that is
  absent or empty. The instruction of the full-concept stage carries the fixed wording
  of the four-way rule (a URL: use it; a WhatsApp number: use it; both: a CTA that
  incorporates both; neither: a generic CTA like \<^verbatim>\<open>Learn More\<close>). The instruction
  of the hook stage ends, after the language, with the fixed sentences for the cases
  both and only one, and with the request for a JSON object; it has no sentence for
  the case neither. The CTA text of a concept, and the CTA options, are the ones in
  the provider's response, returned as they were parsed.
\<close>

theorem cta_details_reach_the_instruction_text:
  "opt_or_default None ''Not provided'' = ''Not provided'' \<and>
   opt_or_default (Some []) ''Not provided'' = ''Not provided'' \<and>
   (u \<noteq> [] \<longrightarrow> opt_or_default (Some u) ''Not provided'' = u) \<and>
   (generateFullConcepts_prompt cta brand ideas t st = Inr p \<longrightarrow>
      sublist (''- Website for CTA: \"'' @ opt_or_default (url cta) ''Not provided'' @
               ''\"\<newline>    - WhatsApp for CTA: \"'' @ opt_or_default (whatsapp cta) ''Not provided'' @ ''\"'') p \<and>
      sublist ''The CTA must be context-aware: if a URL is given, use it. If a WhatsApp number is given, use it. If both, suggest a CTA that incorporates both. If neither, use a generic CTA like \"Learn More\".'' p \<and>
      generateFullConcepts part cta brand draft ideas t st (Parsed concepts) = Inr concepts) \<and>
   (generateHooksAndCtas_prompt cs cta lang = Inr q \<longrightarrow>
      sublist (''- Website URL: '' @ opt_or_default (url cta) ''Not provided'' @
               ''\<newline>    - WhatsApp Number: '' @ opt_or_default (whatsapp cta) ''Not provided'' @ ''\<newline>'') q \<and>
      sublist ''These CTAs MUST intelligently incorporate the provided Website URL and/or WhatsApp number. If both are provided, create CTAs that leverage them together (e.g., \"Shop now at our website or message us on WhatsApp!\"). If only one is provided, use it directly.'' q \<and>
      suffix (lang @ ''. These CTAs MUST intelligently incorporate the provided Website URL and/or WhatsApp number. If both are provided, create CTAs that leverage them together (e.g., \"Shop now at our website or message us on WhatsApp!\"). If only one is provided, use it directly.\<newline>\<newline>    Output the result in a JSON object.'') q \<and>
      generateHooksAndCtas part cs cta lang (Parsed hooks) = Inr hooks)"
proof (intro conjI impI)
  assume p: "generateFullConcepts_prompt cta brand ideas t st = Inr p"
  then show "sublist (''- Website for CTA: \"'' @ opt_or_default (url cta) ''Not provided'' @
               ''\"\<newline>    - WhatsApp for CTA: \"'' @ opt_or_default (whatsapp cta) ''Not provided'' @ ''\"'') p"
    by (rule full_prompt_cta_lines)
  from p show "sublist ''The CTA must be context-aware: if a URL is given, use it. If a WhatsApp number is given, use it. If both, suggest a CTA that incorporates both. If neither, use a generic CTA like \"Learn More\".'' p"
    by (rule full_prompt_rule)
  from p show "generateFullConcepts part cta brand draft ideas t st (Parsed concepts) = Inr concepts"
    by (simp add: generateFullConcepts_def)
next
  assume q: "generateHooksAndCtas_prompt cs cta lang = Inr q"
  then show "sublist (''- Website URL: '' @ opt_or_default (url cta) ''Not provided'' @
               ''\<newline>    - WhatsApp Number: '' @ opt_or_default (whatsapp cta) ''Not provided'' @ ''\<newline>'') q"
    by (rule hooks_prompt_cta_lines)
  from q show "sublist ''These CTAs MUST intelligently incorporate the provided Website URL and/or WhatsApp number. If both are provided, create CTAs that leverage them together (e.g., \"Shop now at our website or message us on WhatsApp!\"). If only one is provided, use it directly.'' q"
    by (rule hooks_prompt_rule)
  from q show "suffix (lang @ ''. These CTAs MUST intelligently incorporate the provided Website URL and/or WhatsApp number. If both are provided, create CTAs that leverage them together (e.g., \"Shop now at our website or message us on WhatsApp!\"). If only one is provided, use it directly.\<newline>\<newline>    Output the result in a JSON object.'') q"
    by (rule hooks_prompt_end)
  from q show "generateHooksAndCtas part cs cta lang (Parsed hooks) = Inr hooks"
    by (simp add: generateHooksAndCtas_def)
qed (simp_all add: opt_or_default_def or_default_def)

theorem cta_details_reach_the_instruction_text_witness:
  "opt_or_default (Some ''https://x.com'') ''Not provided'' = ''https://x.com'' \<and>
   (\<exists>p. generateFullConcepts_prompt \<lparr> url = Some ''https://x.com'', whatsapp = Some [] \<rparr> []
          two_ideas Still sample_style = Inr p \<and>
        sublist ''- Website for CTA: \"https://x.com\"\<newline>    - WhatsApp for CTA: \"Not provided\"'' p) \<and>
   (\<exists>q. generateHooksAndCtas_prompt two_concepts \<lparr> url = Some ''https://x.com'', whatsapp = Some [] \<rparr>
          ''English'' = Inr q \<and>
        sublist ''- Website URL: https://x.com\<newline>    - WhatsApp Number: Not provided\<newline>'' q \<and>
        suffix (''English'' @ ''. These CTAs MUST intelligently incorporate the provided Website URL and/or WhatsApp number. If both are provided, create CTAs that leverage them together (e.g., \"Shop now at our website or message us on WhatsApp!\"). If only one is provided, use it directly.\<newline>\<newline>    Output the result in a JSON object.'') q)"
proof -
  let ?cta = "\<lparr> url = Some ''https://x.com'', whatsapp = Some [] \<rparr>"
  have "2 \<le> length two_ideas"
    by (simp add: two_ideas_def)
  from full_prompt_builds [OF this]
  obtain p where p: "generateFullConcepts_prompt ?cta [] two_ideas Still sample_style = Inr p"
    by blast
  obtain q where q: "generateHooksAndCtas_prompt two_concepts ?cta ''English'' = Inr q"
    using sample_hooks_prompt_builds by blast
  note inst = cta_details_reach_the_instruction_text
    [where u = "''https://x.com''" and cta = ?cta and brand = "[]" and ideas = two_ideas
      and t = Still and st = sample_style and p = p and cs = two_concepts
      and lang = "''English''" and q = q]
  from inst have "opt_or_default (Some ''https://x.com'') ''Not provided'' = ''https://x.com''"
    by simp
  moreover from inst p
  have "sublist ''- Website for CTA: \"https://x.com\"\<newline>    - WhatsApp for CTA: \"Not provided\"'' p"
    by (simp add: opt_or_default_def or_default_def)
  moreover from inst q
  have "sublist ''- Website URL: https://x.com\<newline>    - WhatsApp Number: Not provided\<newline>'' q"
    by (simp add: opt_or_default_def or_default_def)
  moreover from inst q
  have "suffix (''English'' @ ''. These CTAs MUST intelligently incorporate the provided Website URL and/or WhatsApp number. If both are provided, create CTAs that leverage them together (e.g., \"Shop now at our website or message us on WhatsApp!\"). If only one is provided, use it directly.\<newline>\<newline>    Output the result in a JSON object.'') q"
    by (simp only: simp_thms)
  ultimately show ?thesis
    using p q by blast
qed

text \<open>
  C3 as stated fails: with both a URL and a WhatsApp number given, a response whose
  concepts carry the generic CTA \<^verbatim>\<open>Learn More\<close> is returned by the full-concept
  stage, and neither CTA mentions the URL or the number. And with neither of the two
  given, the instruction text of the hook stage has no word of a generic CTA.
\<close>

theorem provider_cta_is_not_held_to_the_rule:
  "generateFullConcepts sample_part \<lparr> url = Some ''https://x.com'', whatsapp = Some ''+15550100'' \<rparr> [] []
     two_ideas Still sample_style (Parsed two_concepts) = Inr two_concepts \<and>
   \<not> list_ex (cta_mentions ''https://x.com'') two_concepts \<and>
   \<not> list_ex (cta_mentions ''+15550100'') two_concepts \<and>
   (case generateHooksAndCtas_prompt two_concepts \<lparr> url = None, whatsapp = None \<rparr> ''English'' of
      Inl e \<Rightarrow> False
    | Inr q \<Rightarrow>
        \<not> sublist ''neither'' q \<and> \<not> sublist ''Neither'' q \<and> \<not> sublist ''generic'' q \<and>
        \<not> sublist ''Learn More'' q)"
proof -
  have "2 \<le> length two_ideas"
    by (simp add: two_ideas_def)
  then have "generateFullConcepts sample_part \<lparr> url = Some ''https://x.com'', whatsapp = Some ''+15550100'' \<rparr> [] []
     two_ideas Still sample_style (Parsed two_concepts) = Inr two_concepts"
    by (simp add: full_concepts_parsed)
  moreover have "\<not> list_ex (cta_mentions ''https://x.com'') two_concepts"
    and "\<not> list_ex (cta_mentions ''+15550100'') two_concepts"
    by (simp_all add: two_concepts_def cta_mentions_def own_def learn_more_mentions_neither)
  moreover have "case generateHooksAndCtas_prompt two_concepts \<lparr> url = None, whatsapp = None \<rparr> ''English'' of
      Inl e \<Rightarrow> False
    | Inr q \<Rightarrow>
        \<not> sublist ''neither'' q \<and> \<not> sublist ''Neither'' q \<and> \<not> sublist ''generic'' q \<and>
        \<not> sublist ''Learn More'' q"
    by (rule sample_hooks_prompt_has_no_generic)
  ultimately show ?thesis
    by (simp only: simp_thms)
qed

text \<open>
  C4, as the code has it. The format decides the output schema that the full-concept
  stage sends to the provider: the \<^verbatim>\<open>technicalSpecs\<close> object is declared with the
  keys \<^verbatim>\<open>camera\<close>, \<^verbatim>\<open>lenses\<close>, \<^verbatim>\<open>angles\<close>, \<^verbatim>\<open>specs\<close>, \<^verbatim>\<open>mood\<close>, and with
  \<^verbatim>\<open>cameraMovement\<close>, \<^verbatim>\<open>editingStyle\<close>, \<^verbatim>\<open>soundDesign\<close> exactly when the format
  is video, all of them required; the description of \<^verbatim>\<open>format\<close> asks for
  \<^verbatim>\<open>Short Video\<close> or \<^verbatim>\<open>Still Image\<close>. The concepts that the stage returns are the
  ones of the provider's response, as parsed: their number, their \<^verbatim>\<open>format\<close> and
  their keys are not checked.
\<close>

theorem schema_asks_video_keys_only_for_video:
  "map_option required_names (item_property (generateFullConcepts_schema t) ''technicalSpecs'') =
     Some ([''camera'', ''lenses'', ''angles'', ''specs'', ''mood''] @
           (if t = Video then video_only_keys else [])) \<and>
   map_option declared_names (item_property (generateFullConcepts_schema t) ''technicalSpecs'') =
     Some ([''camera'', ''lenses'', ''angles'', ''specs'', ''mood''] @
           (if t = Video then video_only_keys else [])) \<and>
   item_property (generateFullConcepts_schema t) ''format'' =
     Some (TString (Some (''Set to \"'' @ (if t = Video then ''Short Video'' else ''Still Image'') @ ''\"''))) \<and>
   (2 \<le> length ideas \<longrightarrow>
      generateFullConcepts part cta brand draft ideas t st (Parsed concepts) = Inr concepts)"
  by (simp add: generateFullConcepts_schema_def technicalSpecsProps_def item_property_def
      required_names_def declared_names_def video_only_keys_def full_concepts_parsed Let_def)

theorem schema_asks_video_keys_only_for_video_witness:
  "map_option required_names (item_property (generateFullConcepts_schema Still) ''technicalSpecs'') =
     Some [''camera'', ''lenses'', ''angles'', ''specs'', ''mood''] \<and>
   map_option required_names (item_property (generateFullConcepts_schema Video) ''technicalSpecs'') =
     Some [''camera'', ''lenses'', ''angles'', ''specs'', ''mood'',
           ''cameraMovement'', ''editingStyle'', ''soundDesign''] \<and>
   generateFullConcepts sample_part \<lparr> url = None, whatsapp = None \<rparr> [] [] two_ideas Still sample_style
     (Parsed two_concepts) = Inr two_concepts"
proof -
  have "2 \<le> length two_ideas"
    by (simp add: two_ideas_def)
  with schema_asks_video_keys_only_for_video [where t = Still and ideas = two_ideas]
    schema_asks_video_keys_only_for_video [where t = Video]
  show ?thesis
    by (simp add: video_only_keys_def)
qed

text \<open>
  C4 as stated fails: on a still-image request, a response that holds one concept with
  the format \<^verbatim>\<open>Short Video\<close> and a \<^verbatim>\<open>cameraMovement\<close> key is what the stage returns.
\<close>

theorem still_stage_returns_a_video_shaped_concept:
  "generateFullConcepts sample_part \<lparr> url = None, whatsapp = None \<rparr> [] [] two_ideas Still sample_style
     (Parsed one_video_concept) = Inr one_video_concept \<and>
   length one_video_concept \<noteq> 2 \<and>
   \<not> list_all (format_shape Still) one_video_concept"
proof -
  have "2 \<le> length two_ideas"
    by (simp add: two_ideas_def)
  then show ?thesis
    by (simp add: full_concepts_parsed)
      (simp add: one_video_concept_def format_shape_def own_def video_only_keys_def)
qed

text \<open>
  C9. With a draft that is not empty, the instruction text of the idea stage opens as
  the creative director who enhances raw ideas, says that the goal is to show five
  enhanced variations of the user's idea, and quotes the draft. With an empty draft it
  opens as the plain creative director who was given an image and brand guidelines,
  goes on with the core instruction (generate 5 ad concept ideas) and ends with the
  brand guidelines; no line for a user concept is written. The text for a draft that
  is not empty differs from the text for an empty draft, whatever the other inputs
  are.
\<close>

theorem idea_prompt_has_two_framings:
  "(draft \<noteq> [] \<longrightarrow>
      prefix ''You are a world-class AI creative director specializing in enhancing raw ideas into high-performing campaigns.''
        (generateConceptIdeas_prompt brand draft st t) \<and>
      sublist ''The goal is not to replace their idea, but to show them five professional, enhanced variations of it.''
        (generateConceptIdeas_prompt brand draft st t) \<and>
      sublist (''- User's Raw Ad Concept to Enhance: \"'' @ draft @ ''\"'')
        (generateConceptIdeas_prompt brand draft st t)) \<and>
   prefix ''You are a world-class AI creative director. A user has provided an image, brand guidelines, a chosen format (''
     (generateConceptIdeas_prompt brand [] st t) \<and>
   sublist (coreInstruction (if t = Still then ''still image'' else ''short 8-10 second video'') st)
     (generateConceptIdeas_prompt brand [] st t) \<and>
   suffix (''- Brand Guidelines: \"'' @ or_default brand ''N/A'' @ ''\"'')
     (generateConceptIdeas_prompt brand [] st t) \<and>
   prefix ''Your task is to generate 5 distinct, highly trending, and attention-grabbing ad concept IDEAS for a ''
     (coreInstruction format st) \<and>
   (draft \<noteq> [] \<longrightarrow>
      generateConceptIdeas_prompt brand draft st t \<noteq> generateConceptIdeas_prompt brand' [] st' t')"
proof (intro conjI impI)
  assume ne: "draft \<noteq> []"
  show "prefix ''You are a world-class AI creative director specializing in enhancing raw ideas into high-performing campaigns.''
        (generateConceptIdeas_prompt brand draft st t)"
    using ne by (simp add: generateConceptIdeas_prompt_def Let_def)
  show "sublist ''The goal is not to replace their idea, but to show them five professional, enhanced variations of it.''
        (generateConceptIdeas_prompt brand draft st t)"
    using ne unfolding generateConceptIdeas_prompt_def Let_def
    apply (simp only: if_True if_False simp_thms)
    apply (rule sublist_skip)
    apply (rule sublist_skip)
    apply (rule sublist_in_first)
    apply (rule ideas_prompt_enhanced_sentence)
    done
  show "sublist (''- User's Raw Ad Concept to Enhance: \"'' @ draft @ ''\"'')
        (generateConceptIdeas_prompt brand draft st t)"
    using ne unfolding generateConceptIdeas_prompt_def Let_def
    apply (simp only: if_True if_False simp_thms)
    apply (rule sublist_skip)
    apply (rule sublist_skip)
    apply (rule sublist_skip)
    apply (rule sublist_skip)
    apply (rule sublist_skip)
    apply (rule sublist_skip)
    apply (rule sublist_middle)
     apply (simp add: suffix_to_prefix)
    apply simp
    done
next
  show "prefix ''You are a world-class AI creative director. A user has provided an image, brand guidelines, a chosen format (''
     (generateConceptIdeas_prompt brand [] st t)"
    by (simp add: generateConceptIdeas_prompt_def Let_def)
  show "sublist (coreInstruction (if t = Still then ''still image'' else ''short 8-10 second video'') st)
     (generateConceptIdeas_prompt brand [] st t)"
    unfolding generateConceptIdeas_prompt_def Let_def
    apply (simp only: if_True if_False simp_thms)
    apply (rule sublist_skip)
    apply (rule sublist_skip)
    apply (rule sublist_skip)
    apply (rule sublist_append_rightI)
    done
  show "suffix (''- Brand Guidelines: \"'' @ or_default brand ''N/A'' @ ''\"'')
     (generateConceptIdeas_prompt brand [] st t)"
    unfolding generateConceptIdeas_prompt_def Let_def
    apply (simp only: if_True if_False simp_thms)
    apply (rule suffix_skip)
    apply (rule suffix_skip)
    apply (rule suffix_skip)
    apply (rule suffix_skip)
    apply (rule suffix_skip)
    apply (rule suffix_skip)
    apply (rule suffix_tail)
    apply (simp add: suffix_to_prefix)
    done
  show "prefix ''Your task is to generate 5 distinct, highly trending, and attention-grabbing ad concept IDEAS for a ''
     (coreInstruction format st)"
    by (simp add: coreInstruction_def)
next
  assume ne: "draft \<noteq> []"
  show "generateConceptIdeas_prompt brand draft st t \<noteq> generateConceptIdeas_prompt brand' [] st' t'"
    using ne unfolding generateConceptIdeas_prompt_def Let_def
    apply (simp only: if_True if_False simp_thms)
    apply (rule differ_at_prefix [where n = 50])
      apply simp_all
    done
qed

theorem idea_prompt_has_two_framings_witness:
  "sublist ''The goal is not to replace their idea, but to show them five professional, enhanced variations of it.''
     (generateConceptIdeas_prompt [] ''A dog on a skateboard'' sample_style Still) \<and>
   sublist ''- User's Raw Ad Concept to Enhance: \"A dog on a skateboard\"''
     (generateConceptIdeas_prompt [] ''A dog on a skateboard'' sample_style Still) \<and>
   generateConceptIdeas_prompt [] ''A dog on a skateboard'' sample_style Still \<noteq>
     generateConceptIdeas_prompt [] [] sample_style Still"
  using idea_prompt_has_two_framings
    [where draft = "''A dog on a skateboard''" and brand = "[]" and st = sample_style and t = Still
      and brand' = "[]" and st' = sample_style and t' = Still]
  by simp

text \<open>
  C5. Whatever the two selection records hold, the concepts that \<^verbatim>\<open>handleConfirm\<close>
  hands on are as many as the finalized concepts, and each has, under every property
  name other than \<^verbatim>\<open>hookLine\<close> and \<^verbatim>\<open>cta\<close>, what the finalized concept has there
  (the same value, or no property). The same holds between the concepts in
  \<open>adConcepts\<close> before the confirmation and those the terminal stage was started
  with, which it stores in \<open>adConcepts\<close>.
\<close>

theorem confirming_changes_only_hook_and_cta:
  "(handleConfirm isLoading concepts selectedHooks selectedCtas = Some (Value finalConcepts) \<longrightarrow>
      length finalConcepts = length concepts \<and>
      (\<forall>i k. i < length concepts \<longrightarrow> k \<noteq> ''hookLine'' \<longrightarrow> k \<noteq> ''cta'' \<longrightarrow>
         map_of (finalConcepts ! i) k = map_of (concepts ! i) k)) \<and>
   (confirmSelection selectedHooks selectedCtas imagePart response s = Value s' \<longrightarrow>
      length (adConcepts s') = length (adConcepts s) \<and>
      (\<forall>i k. i < length (adConcepts s) \<longrightarrow> k \<noteq> ''hookLine'' \<longrightarrow> k \<noteq> ''cta'' \<longrightarrow>
         map_of (adConcepts s' ! i) k = map_of (adConcepts s ! i) k))"
proof (intro conjI impI)
  assume "handleConfirm isLoading concepts selectedHooks selectedCtas = Some (Value finalConcepts)"
  then have "confirm_concepts selectedHooks selectedCtas concepts = Value finalConcepts"
    by (simp add: handleConfirm_def split: if_splits)
  then have rel: "list_all2 (\<lambda>c c'. \<forall>k. k \<noteq> ''hookLine'' \<longrightarrow> k \<noteq> ''cta'' \<longrightarrow> map_of c' k = map_of c k)
      concepts finalConcepts"
    by (rule confirm_concepts_frame)
  then show "length finalConcepts = length concepts"
    by (simp add: list_all2_lengthD)
  from rel show "\<forall>i k. i < length concepts \<longrightarrow> k \<noteq> ''hookLine'' \<longrightarrow> k \<noteq> ''cta'' \<longrightarrow>
      map_of (finalConcepts ! i) k = map_of (concepts ! i) k"
    by (auto dest: list_all2_nthD)
next
  assume run: "confirmSelection selectedHooks selectedCtas imagePart response s = Value s'"
  have "adConcepts s' = adConcepts s \<or>
        confirm_concepts selectedHooks selectedCtas (adConcepts s) = Value (adConcepts s')"
    using run
    by (auto simp: confirmSelection_def handleConfirm_def handleFinalizeAndGenerateOutputs_def
        Let_def split: if_splits outcome.splits option.splits advert_type.splits sum.splits)
  then have "list_all2 (\<lambda>c c'. \<forall>k. k \<noteq> ''hookLine'' \<longrightarrow> k \<noteq> ''cta'' \<longrightarrow> map_of c' k = map_of c k)
      (adConcepts s) (adConcepts s')"
    by (auto dest: confirm_concepts_frame simp: list_all2_same)
  then have rel: "list_all2 (\<lambda>c c'. \<forall>k. k \<noteq> ''hookLine'' \<longrightarrow> k \<noteq> ''cta'' \<longrightarrow> map_of c' k = map_of c k)
      (adConcepts s) (adConcepts s')" .
  then show "length (adConcepts s') = length (adConcepts s)"
    by (simp add: list_all2_lengthD)
  from rel show "\<forall>i k. i < length (adConcepts s) \<longrightarrow> k \<noteq> ''hookLine'' \<longrightarrow> k \<noteq> ''cta'' \<longrightarrow>
      map_of (adConcepts s' ! i) k = map_of (adConcepts s ! i) k"
    by (auto dest: list_all2_nthD)
qed

theorem confirming_changes_only_hook_and_cta_witness:
  "(\<exists>finalConcepts. handleConfirm False two_concepts chosen_hooks chosen_ctas = Some (Value finalConcepts) \<and>
      length finalConcepts = 2 \<and>
      map_of (finalConcepts ! 0) ''technicalSpecs'' = map_of (two_concepts ! 0) ''technicalSpecs'' \<and>
      map_of (finalConcepts ! 1) ''conceptSummary'' = Some (Str ''Neon light'')) \<and>
   (\<exists>s'. confirmSelection chosen_hooks chosen_ctas (Inr sample_part) NotJson (review_state\<lparr> stage := SelectingHooksAndCtas \<rparr>) = Value s' \<and>
      map_of (adConcepts s' ! 0) ''optionName'' = Some (Str ''Sunrise''))"
proof -
  obtain finalConcepts where
    f: "handleConfirm False two_concepts chosen_hooks chosen_ctas = Some (Value finalConcepts)"
    using sample_confirm by blast
  let ?s = "review_state\<lparr> stage := SelectingHooksAndCtas \<rparr>"
  have s': "confirmSelection chosen_hooks chosen_ctas (Inr sample_part) NotJson ?s =
      Value (handleFinalizeAndGenerateOutputs finalConcepts (Inr sample_part) NotJson ?s)"
    using f by (simp add: confirmSelection_def review_state_def)
  note inst = confirming_changes_only_hook_and_cta
    [where isLoading = False and concepts = two_concepts and selectedHooks = chosen_hooks
      and selectedCtas = chosen_ctas and finalConcepts = finalConcepts and response = NotJson
      and s = ?s and s' = "handleFinalizeAndGenerateOutputs finalConcepts (Inr sample_part) NotJson ?s"]
  from inst f have len: "length finalConcepts = 2"
    and same: "\<And>i k. i < 2 \<Longrightarrow> k \<noteq> ''hookLine'' \<Longrightarrow> k \<noteq> ''cta'' \<Longrightarrow>
      map_of (finalConcepts ! i) k = map_of (two_concepts ! i) k"
    by (simp_all add: two_concepts_def)
  from inst s' have same': "\<And>i k. i < 2 \<Longrightarrow> k \<noteq> ''hookLine'' \<Longrightarrow> k \<noteq> ''cta'' \<Longrightarrow>
      map_of (adConcepts (handleFinalizeAndGenerateOutputs finalConcepts (Inr sample_part) NotJson ?s) ! i) k =
      map_of (two_concepts ! i) k"
    by (simp add: review_state_def two_concepts_def)
  have "map_of (finalConcepts ! 0) ''technicalSpecs'' = map_of (two_concepts ! 0) ''technicalSpecs''"
    by (rule same) simp_all
  moreover have "map_of (finalConcepts ! 1) ''conceptSummary'' = Some (Str ''Neon light'')"
    using same [of 1 "''conceptSummary''"] by (simp add: two_concepts_def)
  moreover have "map_of (adConcepts (handleFinalizeAndGenerateOutputs finalConcepts (Inr sample_part) NotJson ?s) ! 0) ''optionName'' =
      Some (Str ''Sunrise'')"
    using same' [of 0 "''optionName''"] by (simp add: two_concepts_def)
  ultimately show ?thesis
    using f len s' by blast
qed

text \<open>
  C6, as the code has it. Let the store hold JSON values (it equals its own deep copy,
  as every store that the handlers write does), let there be a concept at the index
  under edit, and let the path have one segment, or two segments of which the first
  is absent from the concept or holds an object; no segment is a name that
  \<^verbatim>\<open>Object.prototype\<close> defines. Then the edit yields a store in which the addressed
  position of that concept holds the string, every position that is neither on the
  path nor below it holds what it held, the other concepts are untouched, and a first
  segment that was absent now holds an object with the one new property.
\<close>

theorem edit_replaces_the_addressed_leaf:
  assumes "map copy_obj store = store"
      and "index < length store"
      and "addressable (store ! index) (split_dots field)"
      and "set (split_dots field) \<inter> set object_prototype_keys = {}"
  shows "\<exists>store'. conceptEditUpdater index field v store = Value store' \<and>
           length store' = length store \<and>
           (\<forall>j. j < length store \<longrightarrow> j \<noteq> index \<longrightarrow> store' ! j = store ! j) \<and>
           leaf (store' ! index) (split_dots field) = Some (Str v) \<and>
           (\<forall>p. \<not> prefix p (split_dots field) \<longrightarrow> \<not> prefix (split_dots field) p \<longrightarrow>
              leaf (store' ! index) p = leaf (store ! index) p) \<and>
           (\<forall>k1 k2. split_dots field = [k1, k2] \<longrightarrow> map_of (store ! index) k1 = None \<longrightarrow>
              leaf (store' ! index) [k1] = Some (Obj [(k2, Str v)]))"
proof -
  let ?fs = "split_dots field"
  obtain k ks where fs: "?fs = k # ks"
    using split_dots_nonempty [of field] by (cases ?fs) auto
  from assms(3,4) obtain c where c: "assign_path (store ! index) k ks v = Value c"
    unfolding fs using assign_path_addressable by blast
  with assms(1,2) have run: "conceptEditUpdater index field v store = Value (store[index := c])"
    by (simp add: conceptEditUpdater_def Let_def element_def fs)
  from assign_path_leaf [OF c] assms(4)
  have here: "leaf c (k # ks) = Some (Str v)"
    and others: "\<forall>p. \<not> prefix p (k # ks) \<and> \<not> prefix (k # ks) p \<longrightarrow> leaf c p = leaf (store ! index) p"
    unfolding fs by blast+
  have created: "leaf c [k1] = Some (Obj [(k2, Str v)])"
    if "k # ks = [k1, k2]" "map_of (store ! index) k1 = None" for k1 k2
  proof -
    from that(1) assms(4) have "k1 \<notin> set object_prototype_keys" "k2 \<noteq> ''__proto__''"
      unfolding fs by (auto simp: object_prototype_keys_def)
    with c that show ?thesis
      by (auto simp: AList.update_conv')
  qed
  from assms(2) have "length (store[index := c]) = length store"
    and "\<forall>j. j < length store \<longrightarrow> j \<noteq> index \<longrightarrow> store[index := c] ! j = store ! j"
    and "store[index := c] ! index = c"
    by simp_all
  with run here others created show ?thesis
    unfolding fs by (intro exI [of _ "store[index := c]"]) (simp del: leaf.simps)
qed

theorem edit_replaces_the_addressed_leaf_witness:
  "(\<exists>store'. conceptEditUpdater 1 ''technicalSpecs.mood'' ''calm'' two_concepts = Value store' \<and>
      store' ! 0 = two_concepts ! 0 \<and>
      leaf (store' ! 1) [''technicalSpecs'', ''mood''] = Some (Str ''calm'') \<and>
      leaf (store' ! 1) [''technicalSpecs'', ''camera''] = Some (Str ''Phase One'') \<and>
      leaf (store' ! 1) [''hookLine''] = Some (Str ''Own the night'')) \<and>
   (\<exists>store'. conceptEditUpdater 0 ''technicalSpecs.mood'' ''calm'' one_concept = Value store' \<and>
      leaf (store' ! 0) [''technicalSpecs''] = Some (Obj [(''mood'', Str ''calm'')]) \<and>
      leaf (store' ! 0) [''stylingNotes''] = Some (Str ''linen''))"
proof -
  have proto: "set (split_dots ''technicalSpecs.mood'') \<inter> set object_prototype_keys = {}"
    by (simp add: object_prototype_keys_def)
  have "addressable (two_concepts ! 1) (split_dots ''technicalSpecs.mood'')"
    by (simp add: two_concepts_def)
  from edit_replaces_the_addressed_leaf [OF two_concepts_stable _ this proto, of "''calm''"]
  obtain store' where
    run: "conceptEditUpdater 1 ''technicalSpecs.mood'' ''calm'' two_concepts = Value store'"
    and rest: "\<forall>j. j < length two_concepts \<longrightarrow> j \<noteq> 1 \<longrightarrow> store' ! j = two_concepts ! j"
    and here: "leaf (store' ! 1) (split_dots ''technicalSpecs.mood'') = Some (Str ''calm'')"
    and others: "\<forall>p. \<not> prefix p (split_dots ''technicalSpecs.mood'') \<longrightarrow>
        \<not> prefix (split_dots ''technicalSpecs.mood'') p \<longrightarrow>
        leaf (store' ! 1) p = leaf (two_concepts ! 1) p"
    by (auto simp: two_concepts_def)
  from rest have "store' ! 0 = two_concepts ! 0"
    by (simp add: two_concepts_def)
  moreover from here have "leaf (store' ! 1) [''technicalSpecs'', ''mood''] = Some (Str ''calm'')"
    by (simp only: split_mood)
  moreover from others have "leaf (store' ! 1) [''technicalSpecs'', ''camera''] = leaf (two_concepts ! 1) [''technicalSpecs'', ''camera'']"
    unfolding split_mood by (elim allE [of _ "[''technicalSpecs'', ''camera'']"]) simp
  then have "leaf (store' ! 1) [''technicalSpecs'', ''camera''] = Some (Str ''Phase One'')"
    by (simp add: two_concepts_def)
  moreover from others have "leaf (store' ! 1) [''hookLine''] = leaf (two_concepts ! 1) [''hookLine'']"
    unfolding split_mood by (elim allE [of _ "[''hookLine'']"]) simp
  then have "leaf (store' ! 1) [''hookLine''] = Some (Str ''Own the night'')"
    by (simp add: two_concepts_def)
  ultimately have first: "\<exists>store'. conceptEditUpdater 1 ''technicalSpecs.mood'' ''calm'' two_concepts = Value store' \<and>
      store' ! 0 = two_concepts ! 0 \<and>
      leaf (store' ! 1) [''technicalSpecs'', ''mood''] = Some (Str ''calm'') \<and>
      leaf (store' ! 1) [''technicalSpecs'', ''camera''] = Some (Str ''Phase One'') \<and>
      leaf (store' ! 1) [''hookLine''] = Some (Str ''Own the night'')"
    using run by blast
  have "addressable (one_concept ! 0) (split_dots ''technicalSpecs.mood'')"
    by (simp add: one_concept_def)
  from edit_replaces_the_addressed_leaf [OF one_concept_stable _ this proto, of "''calm''"]
  obtain store2 where
    run2: "conceptEditUpdater 0 ''technicalSpecs.mood'' ''calm'' one_concept = Value store2"
    and others2: "\<forall>p. \<not> prefix p (split_dots ''technicalSpecs.mood'') \<longrightarrow>
        \<not> prefix (split_dots ''technicalSpecs.mood'') p \<longrightarrow>
        leaf (store2 ! 0) p = leaf (one_concept ! 0) p"
    and created: "\<forall>k1 k2. split_dots ''technicalSpecs.mood'' = [k1, k2] \<longrightarrow>
        map_of (one_concept ! 0) k1 = None \<longrightarrow> leaf (store2 ! 0) [k1] = Some (Obj [(k2, Str ''calm'')])"
    by (auto simp: one_concept_def)
  from created have "leaf (store2 ! 0) [''technicalSpecs''] = Some (Obj [(''mood'', Str ''calm'')])"
    unfolding split_mood by (simp add: one_concept_def)
  moreover from others2 have "leaf (store2 ! 0) [''stylingNotes''] = leaf (one_concept ! 0) [''stylingNotes'']"
    unfolding split_mood by (elim allE [of _ "[''stylingNotes'']"]) simp
  then have "leaf (store2 ! 0) [''stylingNotes''] = Some (Str ''linen'')"
    by (simp add: one_concept_def)
  ultimately have "\<exists>store'. conceptEditUpdater 0 ''technicalSpecs.mood'' ''calm'' one_concept = Value store' \<and>
      leaf (store' ! 0) [''technicalSpecs''] = Some (Obj [(''mood'', Str ''calm'')]) \<and>
      leaf (store' ! 0) [''stylingNotes''] = Some (Str ''linen'')"
    using run2 by blast
  with first show ?thesis
    by (rule conjI)
qed

text \<open>
  C6 as stated fails for paths with at most one level of nesting. Where
  \<^verbatim>\<open>technicalSpecs\<close> holds \<^verbatim>\<open>null\<close>, the edit of \<^verbatim>\<open>technicalSpecs.mood\<close> throws
  at the write of \<^verbatim>\<open>mood\<close> and yields no store. And the edit of the path
  \<^verbatim>\<open>__proto__\<close> yields the store as it was: the concept has no such property
  afterwards either.
\<close>

theorem edit_below_null_yields_no_store:
  "map copy_obj null_specs = null_specs \<and>
   conceptEditUpdater 0 ''technicalSpecs.mood'' ''calm'' null_specs =
     Throws (ErrorObj ''Cannot set properties of null (setting 'mood')'') \<and>
   handleConceptEdit ''technicalSpecs.mood'' ''calm''
       (review_state\<lparr> editableConcepts := null_specs \<rparr>) =
     Throws (ErrorObj ''Cannot set properties of null (setting 'mood')'') \<and>
   conceptEditUpdater 0 ''__proto__'' ''calm'' one_concept = Value one_concept \<and>
   leaf (one_concept ! 0) [''__proto__''] = None"
  by (simp add: conceptEditUpdater_def handleConceptEdit_def element_def null_specs_def
      one_concept_def copy_obj_def non_finite_def cannot_set_def quoted_def
      review_state_def sample_state_def initial_state_def Let_def)

text \<open>
  C7. An edit repeated with the same path and the same value changes nothing: when
  the edit yields a store (a state), the same edit on that store (state) yields it
  again. The path \<^verbatim>\<open>technicalSpecs.mood\<close> with the value \<^verbatim>\<open>calm\<close> is the example.
\<close>

theorem edit_twice_is_edit_once:
  "(conceptEditUpdater index field v store = Value store' \<longrightarrow>
      conceptEditUpdater index field v store' = Value store') \<and>
   (handleConceptEdit field v s = Value s' \<longrightarrow> handleConceptEdit field v s' = Value s')"
proof (intro conjI impI)
  assume "conceptEditUpdater index field v store = Value store'"
  then show "conceptEditUpdater index field v store' = Value store'"
    by (rule conceptEditUpdater_idem)
next
  assume run: "handleConceptEdit field v s = Value s'"
  then obtain store' where
    store': "conceptEditUpdater (reviewIndex s) field v (editableConcepts s) = Value store'"
    and s': "s' = s\<lparr> editableConcepts := store' \<rparr>"
    by (auto simp: handleConceptEdit_def split: outcome.splits)
  from store' have "conceptEditUpdater (reviewIndex s) field v store' = Value store'"
    by (rule conceptEditUpdater_idem)
  then show "handleConceptEdit field v s' = Value s'"
    by (simp add: handleConceptEdit_def s')
qed

theorem edit_twice_is_edit_once_witness:
  "(\<exists>store'. conceptEditUpdater 0 ''technicalSpecs.mood'' ''calm'' two_concepts = Value store' \<and>
      conceptEditUpdater 0 ''technicalSpecs.mood'' ''calm'' store' = Value store') \<and>
   (\<exists>s'. handleConceptEdit ''technicalSpecs.mood'' ''calm'' review_state = Value s' \<and>
      handleConceptEdit ''technicalSpecs.mood'' ''calm'' s' = Value s')"
proof -
  obtain store' where
    a: "conceptEditUpdater 0 ''technicalSpecs.mood'' ''calm'' two_concepts = Value store'"
    by (simp add: conceptEditUpdater_def element_def two_concepts_def copy_obj_def non_finite_def Let_def)
  obtain s' where b: "handleConceptEdit ''technicalSpecs.mood'' ''calm'' review_state = Value s'"
    by (simp add: handleConceptEdit_def conceptEditUpdater_def element_def review_state_def
        sample_state_def initial_state_def two_concepts_def copy_obj_def non_finite_def Let_def)
  from edit_twice_is_edit_once
    [where index = 0 and field = "''technicalSpecs.mood''" and v = "''calm''"
      and store = two_concepts and store' = store' and s = review_state and s' = s']
    a b
  show ?thesis
    by blast
qed

end
